theory Spec2Isabelle
  imports Main
begin

section \<open>Signaling server of the mediasoup video conference (server.js)\<close>

text \<open>
  The server keeps two process-wide JavaScript \<open>Map\<close>s, \<open>peers\<close> and \<open>rooms\<close>, and reacts to
  WebSocket events. The embedding below follows server.js function by function.

  Conventions of the embedding:
  \<^item> a JavaScript \<open>Map\<close> is an association list in insertion order (\<open>map_set\<close> replaces the value
    of an existing key in place and appends a new key, as \<open>Map.prototype.set\<close> does);
  \<^item> a JavaScript \<open>Set\<close> of strings is a list in insertion order (\<open>set_add\<close>, \<open>set_delete\<close>);
  \<^item> the peer objects are mutated in place by the handlers; here the handler writes the changed
    record back under the peer's key (\<open>mutate_peer\<close>), which leaves the order of \<open>peers\<close> alone;
  \<^item> a \<open>throw\<close> is the outcome \<open>Threw\<close>, carrying the state reached when the exception left
    the handler;
  \<^item> every frame handed to \<open>socket.send\<close> is appended to \<open>outbound\<close>, with the socket it went to;
  \<^item> \<open>console.warn\<close> and \<open>console.error\<close> calls are appended to \<open>console\<close>
    (\<open>console.log\<close> output is not recorded);
  \<^item> the mediasoup library (worker, router, transports, producers, consumers) is not part of
    the repository: it is a parameter \<open>E\<close> of the handlers, an interface of functions over an
    engine state of any type;
  \<^item> an \<open>async\<close> handler runs to completion before the next event is taken (the interleaving of
    handlers at an \<open>await\<close> is not modelled);
  \<^item> the payload of a request is a JSON object whose fields, where present, are strings; opaque
    JSON values (capabilities, RTP, ICE and DTLS parameters) are strings as well.
\<close>

subsection \<open>Identifiers and JavaScript containers\<close>

type_synonym peer_id = string
type_synonym room_id = string
type_synonym transport_id = string
type_synonym producer_id = string
type_synonym consumer_id = string
type_synonym blob = string

primrec map_set :: "'k \<Rightarrow> 'v \<Rightarrow> ('k \<times> 'v) list \<Rightarrow> ('k \<times> 'v) list" where
  "map_set k v [] = [(k, v)]"
| "map_set k v (e # es) = (if fst e = k then (k, v) # es else e # map_set k v es)"

definition map_get :: "('k \<times> 'v) list \<Rightarrow> 'k \<Rightarrow> 'v option" where
  "map_get m k = map_of m k"

definition map_has :: "('k \<times> 'v) list \<Rightarrow> 'k \<Rightarrow> bool" where
  "map_has m k = (map_get m k \<noteq> None)"

definition map_delete :: "'k \<Rightarrow> ('k \<times> 'v) list \<Rightarrow> ('k \<times> 'v) list" where
  "map_delete k m = filter (\<lambda>e. fst e \<noteq> k) m"

definition map_values :: "('k \<times> 'v) list \<Rightarrow> 'v list" where
  "map_values m = map snd m"

definition set_add :: "'a \<Rightarrow> 'a list \<Rightarrow> 'a list" where
  "set_add x xs = (if x \<in> set xs then xs else xs @ [x])"

definition set_delete :: "'a \<Rightarrow> 'a list \<Rightarrow> 'a list" where
  "set_delete x xs = removeAll x xs"

subsection \<open>Sockets and frames\<close>

record socket =
  sock_id :: nat
  readyState :: nat

definition OPEN :: nat where
  "OPEN = 1"

record producer_ref =
  ref_producerId :: producer_id
  ref_kind :: string

record peer_info =
  info_peerId :: peer_id
  info_producers :: "producer_ref list"

text \<open>The frames the server sends: \<open>JSON.stringify({ type, payload })\<close>, one constructor per type.\<close>

datatype frame =
    Connected peer_id
  | RouterRtpCapabilities blob
  | RoomJoined room_id "peer_id list" "peer_info list"
  | NewPeer peer_id
  | TransportCreated transport_id blob blob blob string
  | TransportConnected transport_id
  | Produced producer_id string
  | NewProducer peer_id producer_id string
  | Consumed consumer_id producer_id peer_id string blob
  | ConsumerResumed consumer_id
  | PeerLeft peer_id
  | ErrorFrame string

subsection \<open>Engine handles and the engine interface\<close>

record transport =
  t_id :: transport_id
  t_iceParameters :: blob
  t_iceCandidates :: blob
  t_dtlsParameters :: blob

record producer =
  pr_id :: producer_id

record consumer =
  c_id :: consumer_id
  c_kind :: string
  c_rtpParameters :: blob

text \<open>
  A call into the engine takes the engine state and gives the new one with either the value
  the promise resolves to (\<open>Inr\<close>) or the message of the error it rejects with (\<open>Inl\<close>).
\<close>

record 'e engine =
  router_rtpCapabilities :: blob
  router_createWebRtcTransport :: "'e \<Rightarrow> (string + transport) \<times> 'e"
  transport_connect :: "transport_id \<Rightarrow> blob \<Rightarrow> 'e \<Rightarrow> (string + unit) \<times> 'e"
  transport_produce :: "transport_id \<Rightarrow> string \<Rightarrow> blob \<Rightarrow> 'e \<Rightarrow> (string + producer) \<times> 'e"
  router_canConsume :: "producer_id \<Rightarrow> blob \<Rightarrow> 'e \<Rightarrow> bool"
  transport_consume :: "transport_id \<Rightarrow> producer_id \<Rightarrow> blob \<Rightarrow> bool \<Rightarrow> 'e \<Rightarrow> (string + consumer) \<times> 'e"
  consumer_resume :: "consumer_id \<Rightarrow> 'e \<Rightarrow> (string + unit) \<times> 'e"
  transport_close :: "transport_id \<Rightarrow> 'e \<Rightarrow> 'e"

subsection \<open>Server state\<close>

record transport_data =
  td_transport :: transport
  td_direction :: string

record producer_data =
  pd_producer :: producer
  pd_kind :: string

record consumer_data =
  cd_consumer :: consumer
  cd_producerId :: producer_id
  cd_producerPeerId :: peer_id

record peer =
  p_id :: peer_id
  p_socket :: socket
  p_transports :: "(transport_id \<times> transport_data) list"
  p_producers :: "(producer_id \<times> producer_data) list"
  p_consumers :: "(consumer_id \<times> consumer_data) list"
  p_roomId :: "room_id option"

record room =
  r_id :: room_id
  r_peers :: "peer_id list"

datatype console_entry =
    ConsoleWarn string string
  | ConsoleError string string

record 'e server =
  peers :: "(peer_id \<times> peer) list"
  rooms :: "(room_id \<times> room) list"
  engine :: 'e
  outbound :: "(socket \<times> frame) list"
  console :: "console_entry list"

datatype error =
    TransportNotFound
  | ProducerNotFound
  | CannotConsume
  | RecvTransportNotFound
  | ConsumerNotFound
  | EngineError string
  | SyntaxError string
  | TypeError string

fun message :: "error \<Rightarrow> string" where
  "message TransportNotFound = ''Transport not found''"
| "message ProducerNotFound = ''Producer not found''"
| "message CannotConsume = ''Cannot consume''"
| "message RecvTransportNotFound = ''Recv transport not found''"
| "message ConsumerNotFound = ''Consumer not found''"
| "message (EngineError m) = m"
| "message (SyntaxError m) = m"
| "message (TypeError m) = m"

datatype 's outcome =
    Returned 's
  | Threw error 's

fun outcome_state :: "'s outcome \<Rightarrow> 's" where
  "outcome_state (Returned s) = s"
| "outcome_state (Threw e s) = s"

fun thrown :: "'s outcome \<Rightarrow> error option" where
  "thrown (Returned s) = None"
| "thrown (Threw e s) = Some e"

text \<open>In-place mutation of the peer object registered under its id.\<close>

definition mutate_peer :: "peer \<Rightarrow> (peer_id \<times> peer) list \<Rightarrow> (peer_id \<times> peer) list" where
  "mutate_peer p ps = map (\<lambda>e. if fst e = p_id p then (fst e, p) else e) ps"

subsection \<open>Requests\<close>

record payload =
  pl_roomId :: room_id
  pl_direction :: string
  pl_transportId :: transport_id
  pl_dtlsParameters :: blob
  pl_kind :: string
  pl_rtpParameters :: blob
  pl_producerId :: producer_id
  pl_rtpCapabilities :: blob
  pl_consumerId :: consumer_id

record data =
  d_type :: string
  d_payload :: payload

text \<open>What arrives on the socket: text that \<open>JSON.parse\<close> rejects, or a parsed request.\<close>

datatype raw_message =
    Malformed string
  | Parsed data

subsection \<open>sendMessage\<close>

definition sendMessage :: "socket \<Rightarrow> frame \<Rightarrow> 'e server \<Rightarrow> 'e server" where
  "sendMessage sock f s =
     (if readyState sock = OPEN then s\<lparr>outbound := outbound s @ [(sock, f)]\<rparr> else s)"

subsection \<open>Connection\<close>

definition onConnection :: "peer_id \<Rightarrow> socket \<Rightarrow> 'e server \<Rightarrow> 'e server" where
  "onConnection peerId sock s =
     sendMessage sock (Connected peerId)
       (s\<lparr>peers := map_set peerId
            \<lparr>p_id = peerId, p_socket = sock, p_transports = [], p_producers = [],
             p_consumers = [], p_roomId = None\<rparr> (peers s)\<rparr>)"

subsection \<open>Handlers\<close>

definition sendRouterCapabilitiesToPeer :: "'e engine \<Rightarrow> peer \<Rightarrow> 'e server \<Rightarrow> 'e server" where
  "sendRouterCapabilitiesToPeer E p s =
     sendMessage (p_socket p) (RouterRtpCapabilities (router_rtpCapabilities E)) s"

text \<open>
  \<open>Array.from(room.peers).filter(id => id !== peer.id)\<close>, taken from the room as it is before
  the joining peer is added.
\<close>

definition existingPeers :: "room \<Rightarrow> peer \<Rightarrow> peer_id list" where
  "existingPeers rm p = filter (\<lambda>i. i \<noteq> p_id p) (r_peers rm)"

definition producerRefs :: "peer \<Rightarrow> producer_ref list" where
  "producerRefs ep =
     map (\<lambda>pd. \<lparr>ref_producerId = pr_id (pd_producer pd), ref_kind = pd_kind pd\<rparr>)
       (map_values (p_producers ep))"

fun existingPeersInfo :: "(peer_id \<times> peer) list \<Rightarrow> peer_id list \<Rightarrow> peer_info list" where
  "existingPeersInfo ps [] = []"
| "existingPeersInfo ps (i # is) =
     (case map_get ps i of
        None \<Rightarrow> existingPeersInfo ps is
      | Some ep \<Rightarrow>
          (if producerRefs ep \<noteq> []
           then \<lparr>info_peerId = i, info_producers = producerRefs ep\<rparr> # existingPeersInfo ps is
           else existingPeersInfo ps is))"

text \<open>
  The three broadcast loops of server.js have the same body: look the other peer up, and send
  to it only when it is registered and its socket is open.
\<close>

definition notifyPeer :: "frame \<Rightarrow> peer_id \<Rightarrow> 'e server \<Rightarrow> 'e server" where
  "notifyPeer f i s =
     (case map_get (peers s) i of
        None \<Rightarrow> s
      | Some other \<Rightarrow>
          (if readyState (p_socket other) = OPEN then sendMessage (p_socket other) f s else s))"

definition notifyPeers :: "frame \<Rightarrow> peer_id list \<Rightarrow> 'e server \<Rightarrow> 'e server" where
  "notifyPeers f is s = fold (notifyPeer f) is s"

definition addPeerToRoomAndNotifyOthers :: "peer \<Rightarrow> payload \<Rightarrow> 'e server \<Rightarrow> 'e server outcome" where
  "addPeerToRoomAndNotifyOthers p pl s =
     (let roomId = pl_roomId pl;
          rooms1 = (if \<not> map_has (rooms s) roomId
                    then map_set roomId \<lparr>r_id = roomId, r_peers = []\<rparr> (rooms s)
                    else rooms s);
          rm = (case map_get rooms1 roomId of
                  Some r \<Rightarrow> r
                | None \<Rightarrow> \<lparr>r_id = roomId, r_peers = []\<rparr>);
          existing = existingPeers rm p;
          rm' = rm\<lparr>r_peers := set_add (p_id p) (r_peers rm)\<rparr>;
          p' = p\<lparr>p_roomId := Some roomId\<rparr>;
          s1 = s\<lparr>rooms := map_set roomId rm' rooms1, peers := mutate_peer p' (peers s)\<rparr>;
          info = existingPeersInfo (peers s1) existing;
          s2 = sendMessage (p_socket p) (RoomJoined roomId existing info) s1
      in Returned (notifyPeers (NewPeer (p_id p)) existing s2))"

definition createTransportAndSendParameters ::
  "'e engine \<Rightarrow> peer \<Rightarrow> payload \<Rightarrow> 'e server \<Rightarrow> 'e server outcome" where
  "createTransportAndSendParameters E p pl s =
     (let direction = pl_direction pl in
      case router_createWebRtcTransport E (engine s) of
        (Inl m, e') \<Rightarrow> Threw (EngineError m) (s\<lparr>engine := e'\<rparr>)
      | (Inr t, e') \<Rightarrow>
          (let p' = p\<lparr>p_transports :=
                      map_set (t_id t) \<lparr>td_transport = t, td_direction = direction\<rparr> (p_transports p)\<rparr>;
               s1 = s\<lparr>engine := e', peers := mutate_peer p' (peers s)\<rparr>
           in Returned (sendMessage (p_socket p)
                (TransportCreated (t_id t) (t_iceParameters t) (t_iceCandidates t)
                   (t_dtlsParameters t) direction) s1)))"

definition finalizeTransportConnection ::
  "'e engine \<Rightarrow> peer \<Rightarrow> payload \<Rightarrow> 'e server \<Rightarrow> 'e server outcome" where
  "finalizeTransportConnection E p pl s =
     (let transportId = pl_transportId pl in
      case map_get (p_transports p) transportId of
        None \<Rightarrow> Threw TransportNotFound s
      | Some td \<Rightarrow>
          (case transport_connect E (t_id (td_transport td)) (pl_dtlsParameters pl) (engine s) of
             (Inl m, e') \<Rightarrow> Threw (EngineError m) (s\<lparr>engine := e'\<rparr>)
           | (Inr u, e') \<Rightarrow>
               Returned (sendMessage (p_socket p) (TransportConnected transportId)
                 (s\<lparr>engine := e'\<rparr>))))"

text \<open>
  \<open>if (peer.roomId)\<close> is JavaScript truthiness: \<open>null\<close> and the empty string both fail it.
\<close>

definition truthy_roomId :: "room_id option \<Rightarrow> room_id option" where
  "truthy_roomId r = (case r of None \<Rightarrow> None | Some i \<Rightarrow> (if i = [] then None else Some i))"

definition createProducerAndBroadcastToPeers ::
  "'e engine \<Rightarrow> peer \<Rightarrow> payload \<Rightarrow> 'e server \<Rightarrow> 'e server outcome" where
  "createProducerAndBroadcastToPeers E p pl s =
     (let transportId = pl_transportId pl; kind = pl_kind pl in
      case map_get (p_transports p) transportId of
        None \<Rightarrow> Threw TransportNotFound s
      | Some td \<Rightarrow>
          (case transport_produce E (t_id (td_transport td)) kind (pl_rtpParameters pl) (engine s) of
             (Inl m, e') \<Rightarrow> Threw (EngineError m) (s\<lparr>engine := e'\<rparr>)
           | (Inr producer, e') \<Rightarrow>
               (let p' = p\<lparr>p_producers :=
                           map_set (pr_id producer) \<lparr>pd_producer = producer, pd_kind = kind\<rparr>
                             (p_producers p)\<rparr>;
                    s1 = s\<lparr>engine := e', peers := mutate_peer p' (peers s)\<rparr>;
                    s2 = sendMessage (p_socket p) (Produced (pr_id producer) kind) s1
                in case truthy_roomId (p_roomId p') of
                     None \<Rightarrow> Returned s2
                   | Some rid \<Rightarrow>
                       (case map_get (rooms s2) rid of
                          None \<Rightarrow> Returned s2
                        | Some rm \<Rightarrow>
                            Returned (notifyPeers (NewProducer (p_id p) (pr_id producer) kind)
                              (filter (\<lambda>i. i \<noteq> p_id p) (r_peers rm)) s2)))))"

text \<open>
  The scan \<open>for (const [peerId, p] of peers.entries())\<close>: the first registered peer, in
  insertion order, whose producer map has the id. Rooms are not looked at.
\<close>

definition findProducerPeer :: "(peer_id \<times> peer) list \<Rightarrow> producer_id \<Rightarrow> peer option" where
  "findProducerPeer ps producerId =
     map_option snd (find (\<lambda>e. map_has (p_producers (snd e)) producerId) ps)"

definition findRecvTransport :: "peer \<Rightarrow> transport_data option" where
  "findRecvTransport p = find (\<lambda>t. td_direction t = ''recv'') (map_values (p_transports p))"

definition createConsumerForRemoteProducer ::
  "'e engine \<Rightarrow> peer \<Rightarrow> payload \<Rightarrow> 'e server \<Rightarrow> 'e server outcome" where
  "createConsumerForRemoteProducer E p pl s =
     (let producerId = pl_producerId pl; rtpCapabilities = pl_rtpCapabilities pl in
      case findProducerPeer (peers s) producerId of
        None \<Rightarrow> Threw ProducerNotFound s
      | Some producerPeer \<Rightarrow>
          (if \<not> router_canConsume E producerId rtpCapabilities (engine s)
           then Threw CannotConsume s
           else case findRecvTransport p of
             None \<Rightarrow> Threw RecvTransportNotFound s
           | Some recvTransport \<Rightarrow>
               (case transport_consume E (t_id (td_transport recvTransport)) producerId
                       rtpCapabilities True (engine s) of
                  (Inl m, e') \<Rightarrow> Threw (EngineError m) (s\<lparr>engine := e'\<rparr>)
                | (Inr c, e') \<Rightarrow>
                    (let p' = p\<lparr>p_consumers :=
                                map_set (c_id c)
                                  \<lparr>cd_consumer = c, cd_producerId = producerId,
                                   cd_producerPeerId = p_id producerPeer\<rparr> (p_consumers p)\<rparr>;
                         s1 = s\<lparr>engine := e', peers := mutate_peer p' (peers s)\<rparr>
                     in Returned (sendMessage (p_socket p)
                          (Consumed (c_id c) producerId (p_id producerPeer) (c_kind c)
                             (c_rtpParameters c)) s1)))))"

definition resumePausedConsumer ::
  "'e engine \<Rightarrow> peer \<Rightarrow> payload \<Rightarrow> 'e server \<Rightarrow> 'e server outcome" where
  "resumePausedConsumer E p pl s =
     (let consumerId = pl_consumerId pl in
      case map_get (p_consumers p) consumerId of
        None \<Rightarrow> Threw ConsumerNotFound s
      | Some consumerData \<Rightarrow>
          (case consumer_resume E (c_id (cd_consumer consumerData)) (engine s) of
             (Inl m, e') \<Rightarrow> Threw (EngineError m) (s\<lparr>engine := e'\<rparr>)
           | (Inr u, e') \<Rightarrow>
               Returned (sendMessage (p_socket p) (ConsumerResumed consumerId)
                 (s\<lparr>engine := e'\<rparr>))))"

subsection \<open>Routing\<close>

definition dispatch_table :: "string list" where
  "dispatch_table =
     [''getRouterRtpCapabilities'', ''joinRoom'', ''createTransport'', ''connectTransport'',
      ''produce'', ''consume'', ''resumeConsumer'']"

definition routeIncomingMessage ::
  "'e engine \<Rightarrow> peer_id \<Rightarrow> data \<Rightarrow> 'e server \<Rightarrow> 'e server outcome" where
  "routeIncomingMessage E peerId d s =
     (let type = d_type d; pl = d_payload d in
      case map_get (peers s) peerId of
        None \<Rightarrow> Returned (s\<lparr>console := console s @ [ConsoleError ''[Message] Peer not found:'' peerId]\<rparr>)
      | Some p \<Rightarrow>
          (if type = ''getRouterRtpCapabilities'' then Returned (sendRouterCapabilitiesToPeer E p s)
           else if type = ''joinRoom'' then addPeerToRoomAndNotifyOthers p pl s
           else if type = ''createTransport'' then createTransportAndSendParameters E p pl s
           else if type = ''connectTransport'' then finalizeTransportConnection E p pl s
           else if type = ''produce'' then createProducerAndBroadcastToPeers E p pl s
           else if type = ''consume'' then createConsumerForRemoteProducer E p pl s
           else if type = ''resumeConsumer'' then resumePausedConsumer E p pl s
           else Returned (s\<lparr>console := console s @ [ConsoleWarn ''[Message] Unknown message type:'' type]\<rparr>)))"

text \<open>
  The \<open>message\<close> listener of the socket: \<open>try { JSON.parse; await routeIncomingMessage }
  catch (error) { console.error; sendMessage(socket, 'error', ...) }\<close>. The listener closes over
  \<open>peerId\<close> and \<open>socket\<close>.
\<close>

definition catchError :: "socket \<Rightarrow> error \<Rightarrow> 'e server \<Rightarrow> 'e server" where
  "catchError sock e s =
     sendMessage sock (ErrorFrame (message e))
       (s\<lparr>console := console s @ [ConsoleError ''[WebSocket] Error handling message:'' (message e)]\<rparr>)"

definition onMessage :: "'e engine \<Rightarrow> peer_id \<Rightarrow> socket \<Rightarrow> raw_message \<Rightarrow> 'e server \<Rightarrow> 'e server" where
  "onMessage E peerId sock raw s =
     (case raw of
        Malformed m \<Rightarrow> catchError sock (SyntaxError m) s
      | Parsed d \<Rightarrow>
          (case routeIncomingMessage E peerId d s of
             Returned s' \<Rightarrow> s'
           | Threw e s' \<Rightarrow> catchError sock e s'))"

subsection \<open>Disconnection\<close>

definition closeAllTransports :: "'e engine \<Rightarrow> peer \<Rightarrow> 'e server \<Rightarrow> 'e server" where
  "closeAllTransports E p s =
     s\<lparr>engine := fold (\<lambda>td. transport_close E (t_id (td_transport td)))
                    (map_values (p_transports p)) (engine s)\<rparr>"

definition removeFromRoom :: "peer_id \<Rightarrow> peer \<Rightarrow> 'e server \<Rightarrow> 'e server" where
  "removeFromRoom peerId p s =
     (case truthy_roomId (p_roomId p) of
        None \<Rightarrow> s
      | Some rid \<Rightarrow>
          (case map_get (rooms s) rid of
             None \<Rightarrow> s
           | Some rm \<Rightarrow>
               (let rm' = rm\<lparr>r_peers := set_delete peerId (r_peers rm)\<rparr>;
                    s1 = s\<lparr>rooms := map_set rid rm' (rooms s)\<rparr>;
                    s2 = notifyPeers (PeerLeft peerId) (r_peers rm') s1
                in if length (r_peers rm') = 0
                   then s2\<lparr>rooms := map_delete rid (rooms s2)\<rparr>
                   else s2)))"

definition removePeer :: "peer_id \<Rightarrow> 'e server \<Rightarrow> 'e server" where
  "removePeer peerId s = s\<lparr>peers := map_delete peerId (peers s)\<rparr>"

definition handlePeerDisconnection :: "'e engine \<Rightarrow> peer_id \<Rightarrow> 'e server \<Rightarrow> 'e server" where
  "handlePeerDisconnection E peerId s =
     (case map_get (peers s) peerId of
        None \<Rightarrow> s
      | Some p \<Rightarrow> removePeer peerId (removeFromRoom peerId p (closeAllTransports E p s)))"

subsection \<open>The WebSocket server as a transition function\<close>

text \<open>
  \<open>createWebSocketServer\<close> registers one listener per event; a run of the server is a
  sequence of these events. The peer id of a connection comes from \<open>generatePeerId\<close>
  (clock and random generator), so it is part of the event.
\<close>

datatype event =
    Connection peer_id socket
  | Message peer_id socket raw_message
  | Close peer_id

fun step :: "'e engine \<Rightarrow> event \<Rightarrow> 'e server \<Rightarrow> 'e server" where
  "step E (Connection peerId sock) s = onConnection peerId sock s"
| "step E (Message peerId sock raw) s = onMessage E peerId sock raw s"
| "step E (Close peerId) s = handlePeerDisconnection E peerId s"

definition run :: "'e engine \<Rightarrow> event list \<Rightarrow> 'e server \<Rightarrow> 'e server" where
  "run E evs s = fold (step E) evs s"

subsection \<open>Derived notions used in the statements\<close>

text \<open>What a handler appended to \<open>outbound\<close>, given the state it started from.\<close>

definition sent_since :: "'e server \<Rightarrow> 'e server \<Rightarrow> (socket \<times> frame) list" where
  "sent_since s s' = drop (length (outbound s)) (outbound s')"

text \<open>
  \<open>s'\<close> extends the frames sent in \<open>s\<close>, and every frame added went to a socket that was
  open.
\<close>

definition sent_open :: "'e server \<Rightarrow> 'e server \<Rightarrow> bool" where
  "sent_open s s' \<longleftrightarrow>
     length (outbound s) \<le> length (outbound s') \<and>
     take (length (outbound s)) (outbound s') = outbound s \<and>
     list_all (\<lambda>e. readyState (fst e) = OPEN) (sent_since s s')"

definition request :: "string \<Rightarrow> payload \<Rightarrow> raw_message" where
  "request type pl = Parsed \<lparr>d_type = type, d_payload = pl\<rparr>"

definition empty_payload :: payload where
  "empty_payload =
     \<lparr>pl_roomId = [], pl_direction = [], pl_transportId = [], pl_dtlsParameters = [],
      pl_kind = [], pl_rtpParameters = [], pl_producerId = [], pl_rtpCapabilities = [],
      pl_consumerId = []\<rparr>"

definition transports_of_direction :: "string \<Rightarrow> peer \<Rightarrow> transport_data list" where
  "transports_of_direction d p = filter (\<lambda>t. td_direction t = d) (map_values (p_transports p))"

definition consumers_of_producer :: "producer_id \<Rightarrow> peer \<Rightarrow> consumer_data list" where
  "consumers_of_producer i p = filter (\<lambda>c. cd_producerId c = i) (map_values (p_consumers p))"

definition members :: "(room_id \<times> room) list \<Rightarrow> room_id \<Rightarrow> peer_id list" where
  "members rs rid = (case map_get rs rid of None \<Rightarrow> [] | Some rm \<Rightarrow> r_peers rm)"

text \<open>The peers a broadcast over the ids \<open>is\<close> reaches: registered, with an open socket.\<close>

definition recipients :: "(peer_id \<times> peer) list \<Rightarrow> peer_id list \<Rightarrow> peer list" where
  "recipients ps is =
     List.map_filter
       (\<lambda>i. case map_get ps i of
               None \<Rightarrow> None
             | Some q \<Rightarrow> (if readyState (p_socket q) = OPEN then Some q else None)) is"

text \<open>
  The same state with every registered socket closed and nothing sent: what is left of a
  state when the readiness of the sockets and the frames delivered are disregarded.
\<close>

definition CLOSED :: nat where
  "CLOSED = 3"

definition close_socket :: "socket \<Rightarrow> socket" where
  "close_socket sock = sock\<lparr>readyState := CLOSED\<rparr>"

definition mute_peer :: "peer \<Rightarrow> peer" where
  "mute_peer p = p\<lparr>p_socket := close_socket (p_socket p)\<rparr>"

definition mute_peers :: "(peer_id \<times> peer) list \<Rightarrow> (peer_id \<times> peer) list" where
  "mute_peers ps = map (\<lambda>e. (fst e, mute_peer (snd e))) ps"

definition mute :: "'e server \<Rightarrow> 'e server" where
  "mute s = s\<lparr>peers := mute_peers (peers s), outbound := []\<rparr>"

fun mute_event :: "event \<Rightarrow> event" where
  "mute_event (Connection peerId sock) = Connection peerId (close_socket sock)"
| "mute_event (Message peerId sock raw) = Message peerId (close_socket sock) raw"
| "mute_event (Close peerId) = Close peerId"

section \<open>The client's pending consumers (client script)\<close>

text \<open>
  The queue of producers to consume later is kept by the browser client, in
  \<open>state.pendingConsumers\<close>; the server's peer record has no such field. The client state
  below holds the fields the queue handling reads and writes. \<open>cl_device\<close> is the loaded
  mediasoup-client \<open>Device\<close>, represented by its \<open>rtpCapabilities\<close>, or \<open>None\<close> while
  \<open>state.device\<close> is \<open>null\<close> (any use of it then throws a \<open>TypeError\<close>). \<open>cl_sent\<close> lists
  the requests handed to \<open>socket.send\<close>. Updates of the page (DOM) are not modelled.
\<close>

record client =
  cl_socket :: "socket option"
  cl_device :: "blob option"
  cl_recvTransport :: "transport_id option"
  cl_pendingConsumers :: "peer_info list"
  cl_sent :: "data list"

definition client_sendMessage :: "string \<Rightarrow> payload \<Rightarrow> client \<Rightarrow> client" where
  "client_sendMessage type pl c =
     (case cl_socket c of
        None \<Rightarrow> c
      | Some sock \<Rightarrow>
          (if readyState sock = OPEN
           then c\<lparr>cl_sent := cl_sent c @ [\<lparr>d_type = type, d_payload = pl\<rparr>]\<rparr>
           else c))"

text \<open>\<open>state.pendingConsumers = existingProducers || []\<close>, then the request for the send transport.\<close>

definition setupLocalMediaAndTransports :: "peer_info list option \<Rightarrow> client \<Rightarrow> client outcome" where
  "setupLocalMediaAndTransports existingProducers c =
     Returned (client_sendMessage ''createTransport'' (empty_payload\<lparr>pl_direction := ''send''\<rparr>)
       (c\<lparr>cl_pendingConsumers := (case existingProducers of None \<Rightarrow> [] | Some eps \<Rightarrow> eps)\<rparr>))"

definition consumePayload :: "blob \<Rightarrow> producer_ref \<Rightarrow> payload" where
  "consumePayload caps r = empty_payload\<lparr>pl_producerId := ref_producerId r, pl_rtpCapabilities := caps\<rparr>"

text \<open>
  The nested \<open>forEach\<close> over \<open>state.pendingConsumers\<close> and each entry's \<open>producers\<close>.
\<close>

definition consumePending :: "blob \<Rightarrow> peer_info list \<Rightarrow> client \<Rightarrow> client" where
  "consumePending caps pending c =
     fold (\<lambda>peerInfo. fold (\<lambda>r. client_sendMessage ''consume'' (consumePayload caps r))
             (info_producers peerInfo)) pending c"

text \<open>
  \<open>configureTransportAndProduce\<close>. The branch for \<open>direction === 'send'\<close> drives
  mediasoup-client and the camera and waits for replies of the server; it does not touch the
  queue and is the parameter \<open>sendBranch\<close>. The branch for \<open>'recv'\<close> is modelled in full.
\<close>

definition configureTransportAndProduce ::
  "(client \<Rightarrow> client outcome) \<Rightarrow> transport_id \<Rightarrow> string \<Rightarrow> client \<Rightarrow> client outcome" where
  "configureTransportAndProduce sendBranch transportId direction c =
     (if direction = ''send'' then sendBranch c
      else if direction = ''recv'' then
        (case cl_device c of
           None \<Rightarrow> Threw (TypeError ''Cannot read properties of null'') c
         | Some caps \<Rightarrow>
             (let c1 = c\<lparr>cl_recvTransport := Some transportId\<rparr> in
              if cl_pendingConsumers c1 \<noteq> []
              then Returned ((consumePending caps (cl_pendingConsumers c1) c1)\<lparr>cl_pendingConsumers := []\<rparr>)
              else Returned c1))
      else Returned c)"

definition requestToConsumeNewProducer :: "producer_id \<Rightarrow> client \<Rightarrow> client outcome" where
  "requestToConsumeNewProducer producerId c =
     (case cl_device c of
        None \<Rightarrow> Threw (TypeError ''Cannot read properties of null'') c
      | Some caps \<Rightarrow>
          Returned (client_sendMessage ''consume''
            (empty_payload\<lparr>pl_producerId := producerId, pl_rtpCapabilities := caps\<rparr>) c))"

section \<open>A concrete engine and concrete states\<close>

text \<open>
  An engine whose state is a counter of the handles it has created; every handle gets an id
  that was not given before. It refuses the capabilities \<open>''none''\<close> in \<open>canConsume\<close>.
\<close>

definition fresh_id :: "string \<Rightarrow> nat \<Rightarrow> string" where
  "fresh_id prefix n = prefix @ replicate n (CHR ''i'')"

definition demoEngine :: "nat engine" where
  "demoEngine =
     \<lparr>router_rtpCapabilities = ''caps'',
      router_createWebRtcTransport =
        (\<lambda>n. (Inr \<lparr>t_id = fresh_id ''t'' n, t_iceParameters = ''ice'', t_iceCandidates = ''cand'',
                    t_dtlsParameters = ''dtls''\<rparr>, Suc n)),
      transport_connect = (\<lambda>i d n. (Inr (), n)),
      transport_produce = (\<lambda>i k r n. (Inr \<lparr>pr_id = fresh_id ''p'' n\<rparr>, Suc n)),
      router_canConsume = (\<lambda>i caps n. caps \<noteq> ''none''),
      transport_consume =
        (\<lambda>i pr caps paused n.
           (Inr \<lparr>c_id = fresh_id ''c'' n, c_kind = ''video'', c_rtpParameters = ''rtp''\<rparr>, Suc n)),
      consumer_resume = (\<lambda>i n. (Inr (), n)),
      transport_close = (\<lambda>i n. n)\<rparr>"

definition sockA :: socket where
  "sockA = \<lparr>sock_id = 1, readyState = 1\<rparr>"

definition sockB :: socket where
  "sockB = \<lparr>sock_id = 2, readyState = 1\<rparr>"

definition sockC :: socket where
  "sockC = \<lparr>sock_id = 3, readyState = 2\<rparr>"

definition sockD :: socket where
  "sockD = \<lparr>sock_id = 4, readyState = 1\<rparr>"

definition demoTransport :: "transport_id \<Rightarrow> string \<Rightarrow> transport_id \<times> transport_data" where
  "demoTransport i d =
     (i, \<lparr>td_transport = \<lparr>t_id = i, t_iceParameters = ''ice'', t_iceCandidates = ''cand'',
                           t_dtlsParameters = ''dtls''\<rparr>, td_direction = d\<rparr>)"

definition demoProducer :: "producer_id \<Rightarrow> string \<Rightarrow> producer_id \<times> producer_data" where
  "demoProducer i k = (i, \<lparr>pd_producer = \<lparr>pr_id = i\<rparr>, pd_kind = k\<rparr>)"

text \<open>
  Peer A produces video \<open>v1\<close> and audio \<open>a1\<close> in room \<open>r1\<close>; peer B has a receive transport and
  is in room \<open>r2\<close>; peer C is in room \<open>r1\<close> with a socket that is closing; peer D is in room
  \<open>r1\<close> with an open socket.
\<close>

definition peerA :: peer where
  "peerA = \<lparr>p_id = ''A'', p_socket = sockA, p_transports = [demoTransport ''ta'' ''send''],
            p_producers = [demoProducer ''v1'' ''video'', demoProducer ''a1'' ''audio''],
            p_consumers = [], p_roomId = Some ''r1''\<rparr>"

definition peerB :: peer where
  "peerB = \<lparr>p_id = ''B'', p_socket = sockB, p_transports = [demoTransport ''tb'' ''recv''],
            p_producers = [], p_consumers = [], p_roomId = Some ''r2''\<rparr>"

definition peerC :: peer where
  "peerC = \<lparr>p_id = ''C'', p_socket = sockC, p_transports = [],
            p_producers = [], p_consumers = [], p_roomId = Some ''r1''\<rparr>"

definition peerD :: peer where
  "peerD = \<lparr>p_id = ''D'', p_socket = sockD, p_transports = [],
            p_producers = [], p_consumers = [], p_roomId = Some ''r1''\<rparr>"

definition demoServer :: "nat server" where
  "demoServer =
     \<lparr>peers = [(''A'', peerA), (''B'', peerB), (''C'', peerC), (''D'', peerD)],
      rooms = [(''r1'', \<lparr>r_id = ''r1'', r_peers = [''A'', ''C'', ''D'']\<rparr>),
               (''r2'', \<lparr>r_id = ''r2'', r_peers = [''B'']\<rparr>)],
      engine = 0, outbound = [], console = []\<rparr>"

definition demoClient :: client where
  "demoClient =
     \<lparr>cl_socket = Some sockB, cl_device = Some ''caps'', cl_recvTransport = None,
      cl_pendingConsumers =
        [\<lparr>info_peerId = ''A'',
          info_producers = [\<lparr>ref_producerId = ''v1'', ref_kind = ''video''\<rparr>,
                            \<lparr>ref_producerId = ''a1'', ref_kind = ''audio''\<rparr>]\<rparr>],
      cl_sent = []\<rparr>"

text \<open>The state after peer B has consumed \<open>v1\<close> once.\<close>

definition peerB1 :: peer where
  "peerB1 = peerB\<lparr>p_consumers :=
     [(''c'', \<lparr>cd_consumer = \<lparr>c_id = ''c'', c_kind = ''video'', c_rtpParameters = ''rtp''\<rparr>,
               cd_producerId = ''v1'', cd_producerPeerId = ''A''\<rparr>)]\<rparr>"

definition demoServer1 :: "nat server" where
  "demoServer1 =
     demoServer\<lparr>peers := [(''A'', peerA), (''B'', peerB1), (''C'', peerC), (''D'', peerD)],
                engine := 1\<rparr>"

definition consumeV1 :: event where
  "consumeV1 = Message ''B'' sockB
     (request ''consume'' (empty_payload\<lparr>pl_producerId := ''v1'', pl_rtpCapabilities := ''caps''\<rparr>))"

definition createSendTransport :: event where
  "createSendTransport = Message ''D'' sockD
     (request ''createTransport'' (empty_payload\<lparr>pl_direction := ''send''\<rparr>))"

definition consumeRefused :: event where
  "consumeRefused = Message ''B'' sockB
     (request ''consume'' (empty_payload\<lparr>pl_producerId := ''v1'', pl_rtpCapabilities := ''none''\<rparr>))"

definition resumeC :: event where
  "resumeC = Message ''B'' sockB (request ''resumeConsumer'' (empty_payload\<lparr>pl_consumerId := ''c''\<rparr>))"

text \<open>
  The client of peer D after it joined room \<open>r1\<close>: the snapshot held audio \<open>a1\<close> of A, and
  the receive transport does not exist yet.
\<close>

definition demoClientD :: client where
  "demoClientD =
     \<lparr>cl_socket = Some sockD, cl_device = Some ''caps'', cl_recvTransport = None,
      cl_pendingConsumers =
        [\<lparr>info_peerId = ''A'',
          info_producers = [\<lparr>ref_producerId = ''a1'', ref_kind = ''audio''\<rparr>]\<rparr>],
      cl_sent = []\<rparr>"

section \<open>Properties\<close>

subsection \<open>Containers, sending\<close>

lemma map_get_mutate_peer:
  "map_get (mutate_peer p ps) k = (if k = p_id p \<and> map_has ps k then Some p else map_get ps k)"
  by (induction ps) (auto simp: mutate_peer_def map_get_def map_has_def)

lemma map_set_fresh: "\<not> map_has m k \<Longrightarrow> map_set k v m = m @ [(k, v)]"
  by (induction m) (auto simp: map_has_def map_get_def)

lemma map_get_map_set: "map_get (map_set k v m) k' = (if k' = k then Some v else map_get m k')"
  by (induction m) (auto simp: map_get_def)

lemma outbound_sendMessage:
  "outbound (sendMessage sock f s) = outbound s @ (if readyState sock = OPEN then [(sock, f)] else [])"
  by (simp add: sendMessage_def)

lemma sendMessage_fields [simp]:
  "peers (sendMessage sock f s) = peers s"
  "rooms (sendMessage sock f s) = rooms s"
  "engine (sendMessage sock f s) = engine s"
  "console (sendMessage sock f s) = console s"
  by (simp_all add: sendMessage_def)

lemma sent_since_append: "outbound s' = outbound s @ fs \<Longrightarrow> sent_since s s' = fs"
  by (simp add: sent_since_def)

subsection \<open>Unknown request types\<close>

text \<open>
  Claim C5, as amended. A request whose type is not in the dispatch table gets no reply. The
  listener only writes one line to the server console (the warning
  \<open>[Message] Unknown message type:\<close>, or the \<open>Peer not found\<close> error line when the peer is not
  registered); nothing is sent, no registry changes, and nothing is thrown.
\<close>

theorem unknown_type_no_reply:
  assumes "d_type d \<notin> set dispatch_table"
  shows "onMessage E peerId sock (Parsed d) s =
           s\<lparr>console := console s @
               [if map_has (peers s) peerId
                then ConsoleWarn ''[Message] Unknown message type:'' (d_type d)
                else ConsoleError ''[Message] Peer not found:'' peerId]\<rparr>"
  using assms
  by (auto simp: onMessage_def routeIncomingMessage_def dispatch_table_def map_has_def Let_def
      split: option.splits)

text \<open>The amended claim C5 at the request \<open>ping\<close> of peer A.\<close>

theorem unknown_type_no_reply_witness:
  "''ping'' \<notin> set dispatch_table \<and>
   onMessage demoEngine ''A'' sockA (Parsed \<lparr>d_type = ''ping'', d_payload = empty_payload\<rparr>) demoServer =
     demoServer\<lparr>console := [ConsoleWarn ''[Message] Unknown message type:'' ''ping'']\<rparr>"
proof -
  have h: "d_type \<lparr>d_type = ''ping'', d_payload = empty_payload\<rparr> \<notin> set dispatch_table"
    by (simp add: dispatch_table_def)
  show ?thesis
    using h unknown_type_no_reply [OF h, of demoEngine "''A''" sockA demoServer]
    by (simp add: demoServer_def map_has_def map_get_def)
qed

text \<open>
  Claim C5 as stated fails: peer A is registered, its socket is open, the type \<open>ping\<close> is not
  in the dispatch table, and the server sends nothing.
\<close>

theorem unknown_type_reply_counterexample:
  "''ping'' \<notin> set dispatch_table \<and> map_has (peers demoServer) ''A'' \<and> readyState sockA = OPEN \<and>
   sent_since demoServer
     (onMessage demoEngine ''A'' sockA (request ''ping'' empty_payload) demoServer) = []"
  by (simp add: dispatch_table_def demoServer_def map_has_def map_get_def sockA_def OPEN_def
      sent_since_def onMessage_def request_def routeIncomingMessage_def Let_def)

subsection \<open>Consuming\<close>

text \<open>
  The scan for the producer finds an owner as soon as some registered peer has the producer id.
\<close>

lemma findProducerPeer_Some:
  assumes "(k, q) \<in> set ps" and "map_has (p_producers q) i"
  shows "\<exists>owner. findProducerPeer ps i = Some owner \<and> owner \<in> snd ` set ps
           \<and> map_has (p_producers owner) i"
proof -
  let ?P = "\<lambda>e. map_has (p_producers (snd e)) i"
  from assms have "\<exists>e\<in>set ps. ?P e" by force
  then obtain e where e: "find ?P ps = Some e"
    by (cases "find ?P ps") (auto simp: find_None_iff)
  then have "e \<in> set ps" and "?P e"
    by (auto simp: find_Some_iff)
  with e show ?thesis
    by (auto simp: findProducerPeer_def)
qed

lemma createConsumer_success:
  assumes "findProducerPeer (peers s) (pl_producerId pl) = Some owner"
    and "router_canConsume E (pl_producerId pl) (pl_rtpCapabilities pl) (engine s)"
    and "findRecvTransport p = Some rt"
    and "transport_consume E (t_id (td_transport rt)) (pl_producerId pl) (pl_rtpCapabilities pl)
           True (engine s) = (Inr c, e')"
  shows "createConsumerForRemoteProducer E p pl s =
           Returned (sendMessage (p_socket p)
             (Consumed (c_id c) (pl_producerId pl) (p_id owner) (c_kind c) (c_rtpParameters c))
             (s\<lparr>engine := e',
                peers := mutate_peer
                  (p\<lparr>p_consumers := map_set (c_id c)
                       \<lparr>cd_consumer = c, cd_producerId = pl_producerId pl,
                        cd_producerPeerId = p_id owner\<rparr> (p_consumers p)\<rparr>) (peers s)\<rparr>))"
  using assms by (simp add: createConsumerForRemoteProducer_def Let_def)

text \<open>
  Claim C9. A consume request is served from the process-wide peer registry alone. Whenever some
  registered peer owns the producer id, the capability check passes, the requester has a receive
  transport and the engine creates the consumer, the handler returns normally and the requester
  holds the new consumer, bound to the owner the scan found. No hypothesis mentions a room: the
  rooms and the \<open>roomId\<close> of requester and owner are arbitrary, and \<open>rooms\<close> is left as it was.
\<close>

theorem consume_ignores_rooms:
  assumes owner: "(k, q) \<in> set (peers s)" "map_has (p_producers q) (pl_producerId pl)"
    and reg: "map_get (peers s) (p_id p) = Some p"
    and can: "router_canConsume E (pl_producerId pl) (pl_rtpCapabilities pl) (engine s)"
    and recv: "findRecvTransport p = Some rt"
    and eng: "transport_consume E (t_id (td_transport rt)) (pl_producerId pl)
                (pl_rtpCapabilities pl) True (engine s) = (Inr c, e')"
  shows "\<exists>s' owner.
           createConsumerForRemoteProducer E p pl s = Returned s' \<and>
           owner \<in> snd ` set (peers s) \<and> map_has (p_producers owner) (pl_producerId pl) \<and>
           map_get (peers s') (p_id p) =
             Some (p\<lparr>p_consumers := map_set (c_id c)
                       \<lparr>cd_consumer = c, cd_producerId = pl_producerId pl,
                        cd_producerPeerId = p_id owner\<rparr> (p_consumers p)\<rparr>) \<and>
           rooms s' = rooms s"
proof -
  from findProducerPeer_Some [OF owner] obtain owner where
    o: "findProducerPeer (peers s) (pl_producerId pl) = Some owner"
       "owner \<in> snd ` set (peers s)" "map_has (p_producers owner) (pl_producerId pl)"
    by blast
  have r: "map_has (peers s) (p_id p)"
    using reg by (simp add: map_has_def)
  define s' where "s' = sendMessage (p_socket p)
             (Consumed (c_id c) (pl_producerId pl) (p_id owner) (c_kind c) (c_rtpParameters c))
             (s\<lparr>engine := e',
                peers := mutate_peer
                  (p\<lparr>p_consumers := map_set (c_id c)
                       \<lparr>cd_consumer = c, cd_producerId = pl_producerId pl,
                        cd_producerPeerId = p_id owner\<rparr> (p_consumers p)\<rparr>) (peers s)\<rparr>)"
  have 1: "createConsumerForRemoteProducer E p pl s = Returned s'"
    unfolding s'_def by (rule createConsumer_success [OF o(1) can recv eng])
  have 2: "map_get (peers s') (p_id p) =
             Some (p\<lparr>p_consumers := map_set (c_id c)
                       \<lparr>cd_consumer = c, cd_producerId = pl_producerId pl,
                        cd_producerPeerId = p_id owner\<rparr> (p_consumers p)\<rparr>)"
    using r by (simp add: s'_def map_get_mutate_peer)
  have 3: "rooms s' = rooms s"
    by (simp add: s'_def)
  from 1 2 3 o(2,3) show ?thesis
    by blast
qed

text \<open>
  Claim C9 at a concrete state: the owner A is in room \<open>r1\<close>, the requester B in room \<open>r2\<close>.
\<close>

theorem consume_ignores_rooms_witness:
  "p_roomId peerA = Some ''r1'' \<and> p_roomId peerB = Some ''r2'' \<and>
   (\<exists>s'. createConsumerForRemoteProducer demoEngine peerB
            (empty_payload\<lparr>pl_producerId := ''v1'', pl_rtpCapabilities := ''caps''\<rparr>) demoServer
            = Returned s' \<and>
          map_option p_consumers (map_get (peers s') ''B'') =
            Some [(''c'', \<lparr>cd_consumer = \<lparr>c_id = ''c'', c_kind = ''video'', c_rtpParameters = ''rtp''\<rparr>,
                            cd_producerId = ''v1'', cd_producerPeerId = ''A''\<rparr>)])"
proof -
  let ?pl = "empty_payload\<lparr>pl_producerId := ''v1'', pl_rtpCapabilities := ''caps''\<rparr>"
  have a: "(''A'', peerA) \<in> set (peers demoServer)"
    by (simp add: demoServer_def)
  have b: "map_has (p_producers peerA) (pl_producerId ?pl)"
    by (simp add: peerA_def demoProducer_def map_has_def map_get_def empty_payload_def)
  have c: "map_get (peers demoServer) (p_id peerB) = Some peerB"
    by (simp add: demoServer_def peerB_def map_get_def)
  have d: "router_canConsume demoEngine (pl_producerId ?pl) (pl_rtpCapabilities ?pl) (engine demoServer)"
    by (simp add: demoEngine_def empty_payload_def)
  have e: "findRecvTransport peerB = Some (snd (demoTransport ''tb'' ''recv''))"
    by (simp add: findRecvTransport_def peerB_def demoTransport_def map_values_def)
  have f: "transport_consume demoEngine (t_id (td_transport (snd (demoTransport ''tb'' ''recv''))))
             (pl_producerId ?pl) (pl_rtpCapabilities ?pl) True (engine demoServer)
           = (Inr \<lparr>c_id = ''c'', c_kind = ''video'', c_rtpParameters = ''rtp''\<rparr>, Suc 0)"
    by (simp add: demoEngine_def demoServer_def fresh_id_def)
  from consume_ignores_rooms [OF a b c d e f] obtain s' owner where
    h: "createConsumerForRemoteProducer demoEngine peerB ?pl demoServer = Returned s'"
       "owner \<in> snd ` set (peers demoServer)" "map_has (p_producers owner) (pl_producerId ?pl)"
       "map_get (peers s') (p_id peerB) =
          Some (peerB\<lparr>p_consumers := map_set (c_id \<lparr>c_id = ''c'', c_kind = ''video'', c_rtpParameters = ''rtp''\<rparr>)
                       \<lparr>cd_consumer = \<lparr>c_id = ''c'', c_kind = ''video'', c_rtpParameters = ''rtp''\<rparr>,
                        cd_producerId = pl_producerId ?pl,
                        cd_producerPeerId = p_id owner\<rparr> (p_consumers peerB)\<rparr>)"
    by blast
  from h(2,3) have "p_id owner = ''A''"
    by (auto simp: demoServer_def peerA_def peerB_def peerC_def peerD_def map_has_def map_get_def
        empty_payload_def)
  with h(1,4) show ?thesis
    by (auto simp: peerA_def peerB_def empty_payload_def)
qed


text \<open>
  Claim C1, as amended. The handler has no duplicate-subscription guard. A consume request of
  a peer that already holds a consumer for the producer id is served like any other: the engine
  is asked for a new consumer, which is stored under its engine-assigned id. When that id is new
  to the peer, the consumer map gains one entry, the peer then holds one more consumer of that
  producer, and the reply carries the new consumer's id, not the one already held.
\<close>

theorem consume_again_adds_consumer:
  assumes reg: "map_get (peers s) (p_id p) = Some p"
    and held: "map_get (p_consumers p) cid0 = Some cd0" "cd_producerId cd0 = pl_producerId pl"
    and owner: "findProducerPeer (peers s) (pl_producerId pl) = Some owner"
    and can: "router_canConsume E (pl_producerId pl) (pl_rtpCapabilities pl) (engine s)"
    and recv: "findRecvTransport p = Some rt"
    and eng: "transport_consume E (t_id (td_transport rt)) (pl_producerId pl)
                (pl_rtpCapabilities pl) True (engine s) = (Inr c, e')"
    and fresh: "\<not> map_has (p_consumers p) (c_id c)"
  shows "\<exists>s' p'.
           createConsumerForRemoteProducer E p pl s = Returned s' \<and>
           map_get (peers s') (p_id p) = Some p' \<and>
           p_consumers p' =
             p_consumers p @ [(c_id c, \<lparr>cd_consumer = c, cd_producerId = pl_producerId pl,
                                         cd_producerPeerId = p_id owner\<rparr>)] \<and>
           c_id c \<noteq> cid0 \<and>
           length (consumers_of_producer (pl_producerId pl) p') =
             Suc (length (consumers_of_producer (pl_producerId pl) p)) \<and>
           sent_since s s' =
             (if readyState (p_socket p) = OPEN
              then [(p_socket p, Consumed (c_id c) (pl_producerId pl) (p_id owner) (c_kind c)
                       (c_rtpParameters c))]
              else [])"
proof -
  let ?cd = "\<lparr>cd_consumer = c, cd_producerId = pl_producerId pl, cd_producerPeerId = p_id owner\<rparr>"
  let ?p' = "p\<lparr>p_consumers := map_set (c_id c) ?cd (p_consumers p)\<rparr>"
  define s' where "s' = sendMessage (p_socket p)
             (Consumed (c_id c) (pl_producerId pl) (p_id owner) (c_kind c) (c_rtpParameters c))
             (s\<lparr>engine := e', peers := mutate_peer ?p' (peers s)\<rparr>)"
  have 1: "createConsumerForRemoteProducer E p pl s = Returned s'"
    unfolding s'_def by (rule createConsumer_success [OF owner can recv eng])
  have 2: "map_get (peers s') (p_id p) = Some ?p'"
    using reg by (simp add: s'_def map_get_mutate_peer map_has_def)
  have 3: "p_consumers ?p' = p_consumers p @ [(c_id c, ?cd)]"
    using fresh by (simp add: map_set_fresh)
  have 4: "c_id c \<noteq> cid0"
    using fresh held(1) by (auto simp: map_has_def)
  have 5: "length (consumers_of_producer (pl_producerId pl) ?p') =
             Suc (length (consumers_of_producer (pl_producerId pl) p))"
    using fresh by (simp add: consumers_of_producer_def map_values_def map_set_fresh)
  have 6: "sent_since s s' =
             (if readyState (p_socket p) = OPEN
              then [(p_socket p, Consumed (c_id c) (pl_producerId pl) (p_id owner) (c_kind c)
                       (c_rtpParameters c))]
              else [])"
    by (rule sent_since_append) (simp add: s'_def outbound_sendMessage)
  from 1 2 3 4 5 6 show ?thesis
    by blast
qed

text \<open>
  The amended claim C1 at the state where B already holds consumer \<open>c\<close> of \<open>v1\<close>.
\<close>

theorem consume_again_adds_consumer_witness:
  "\<exists>s' p'. createConsumerForRemoteProducer demoEngine peerB1
             (empty_payload\<lparr>pl_producerId := ''v1'', pl_rtpCapabilities := ''caps''\<rparr>) demoServer1
             = Returned s' \<and>
           map_get (peers s') ''B'' = Some p' \<and>
           map (\<lambda>e. (fst e, cd_producerId (snd e))) (p_consumers p') = [(''c'', ''v1''), (''ci'', ''v1'')]"
proof -
  let ?pl = "empty_payload\<lparr>pl_producerId := ''v1'', pl_rtpCapabilities := ''caps''\<rparr>"
  let ?cd0 = "\<lparr>cd_consumer = \<lparr>c_id = ''c'', c_kind = ''video'', c_rtpParameters = ''rtp''\<rparr>,
               cd_producerId = ''v1'', cd_producerPeerId = ''A''\<rparr>"
  let ?c = "\<lparr>c_id = ''ci'', c_kind = ''video'', c_rtpParameters = ''rtp''\<rparr>"
  have a: "map_get (peers demoServer1) (p_id peerB1) = Some peerB1"
    by (simp add: demoServer1_def peerB1_def peerB_def map_get_def)
  have b: "map_get (p_consumers peerB1) ''c'' = Some ?cd0"
    by (simp add: peerB1_def map_get_def)
  have c: "cd_producerId ?cd0 = pl_producerId ?pl"
    by (simp add: empty_payload_def)
  have d: "findProducerPeer (peers demoServer1) (pl_producerId ?pl) = Some peerA"
    by (simp add: findProducerPeer_def demoServer1_def peerA_def demoProducer_def map_has_def
        map_get_def empty_payload_def)
  have e: "router_canConsume demoEngine (pl_producerId ?pl) (pl_rtpCapabilities ?pl) (engine demoServer1)"
    by (simp add: demoEngine_def empty_payload_def)
  have f: "findRecvTransport peerB1 = Some (snd (demoTransport ''tb'' ''recv''))"
    by (simp add: findRecvTransport_def peerB1_def peerB_def demoTransport_def map_values_def)
  have g: "transport_consume demoEngine (t_id (td_transport (snd (demoTransport ''tb'' ''recv''))))
             (pl_producerId ?pl) (pl_rtpCapabilities ?pl) True (engine demoServer1) = (Inr ?c, Suc 1)"
    by (simp add: demoEngine_def demoServer1_def fresh_id_def)
  have h: "\<not> map_has (p_consumers peerB1) (c_id ?c)"
    by (simp add: peerB1_def map_has_def map_get_def)
  from consume_again_adds_consumer [OF a b c d e f g h] show ?thesis
    by (auto simp: peerB1_def peerB_def empty_payload_def)
qed

text \<open>
  Claim C1 as stated fails: after two consume requests of B for \<open>v1\<close>, B holds two consumers
  of \<open>v1\<close>, and the second reply names the second consumer.
\<close>

theorem consume_twice_counterexample:
  "map_option (\<lambda>p. map (\<lambda>e. (fst e, cd_producerId (snd e))) (p_consumers p))
     (map_get (peers (run demoEngine [consumeV1, consumeV1] demoServer)) ''B'')
     = Some [(''c'', ''v1''), (''ci'', ''v1'')] \<and>
   sent_since demoServer (run demoEngine [consumeV1, consumeV1] demoServer)
     = [(sockB, Consumed ''c'' ''v1'' ''A'' ''video'' ''rtp''),
        (sockB, Consumed ''ci'' ''v1'' ''A'' ''video'' ''rtp'')]"
  by code_simp

subsection \<open>Transports\<close>

lemma createTransport_success:
  assumes "router_createWebRtcTransport E (engine s) = (Inr t, e')"
  shows "createTransportAndSendParameters E p pl s =
           Returned (sendMessage (p_socket p)
             (TransportCreated (t_id t) (t_iceParameters t) (t_iceCandidates t)
                (t_dtlsParameters t) (pl_direction pl))
             (s\<lparr>engine := e',
                peers := mutate_peer
                  (p\<lparr>p_transports := map_set (t_id t)
                       \<lparr>td_transport = t, td_direction = pl_direction pl\<rparr> (p_transports p)\<rparr>)
                  (peers s)\<rparr>))"
  using assms by (simp add: createTransportAndSendParameters_def Let_def)

text \<open>
  Claim C3, as amended. The handler never looks at the transports a peer already holds. A
  \<open>createTransport\<close> request whose engine call succeeds with a transport id new to the peer adds
  exactly one transport of the requested direction and none of any other direction. So a peer
  holds at most one send and one receive transport exactly as long as it asks for each direction
  at most once.
\<close>

theorem createTransport_adds_transport:
  assumes reg: "map_get (peers s) (p_id p) = Some p"
    and eng: "router_createWebRtcTransport E (engine s) = (Inr t, e')"
    and fresh: "\<not> map_has (p_transports p) (t_id t)"
  shows "\<exists>s' p'.
           createTransportAndSendParameters E p pl s = Returned s' \<and>
           map_get (peers s') (p_id p) = Some p' \<and>
           p_transports p' =
             p_transports p @ [(t_id t, \<lparr>td_transport = t, td_direction = pl_direction pl\<rparr>)] \<and>
           (\<forall>d. length (transports_of_direction d p') =
                  length (transports_of_direction d p) + (if d = pl_direction pl then 1 else 0))"
proof -
  let ?td = "\<lparr>td_transport = t, td_direction = pl_direction pl\<rparr>"
  let ?p' = "p\<lparr>p_transports := map_set (t_id t) ?td (p_transports p)\<rparr>"
  define s' where "s' = sendMessage (p_socket p)
             (TransportCreated (t_id t) (t_iceParameters t) (t_iceCandidates t)
                (t_dtlsParameters t) (pl_direction pl))
             (s\<lparr>engine := e', peers := mutate_peer ?p' (peers s)\<rparr>)"
  have 1: "createTransportAndSendParameters E p pl s = Returned s'"
    unfolding s'_def by (rule createTransport_success [OF eng])
  have 2: "map_get (peers s') (p_id p) = Some ?p'"
    using reg by (simp add: s'_def map_get_mutate_peer map_has_def)
  have 3: "p_transports ?p' = p_transports p @ [(t_id t, ?td)]"
    using fresh by (simp add: map_set_fresh)
  have 4: "\<forall>d. length (transports_of_direction d ?p') =
                  length (transports_of_direction d p) + (if d = pl_direction pl then 1 else 0)"
    using fresh by (simp add: transports_of_direction_def map_values_def map_set_fresh)
  from 1 2 3 4 show ?thesis
    by blast
qed


text \<open>
  The amended claim C3 at peer D, which holds no transport: one send transport afterwards.
\<close>

theorem createTransport_adds_transport_witness:
  "\<exists>s' p'. createTransportAndSendParameters demoEngine peerD
             (empty_payload\<lparr>pl_direction := ''send''\<rparr>) demoServer = Returned s' \<and>
           map_get (peers s') ''D'' = Some p' \<and>
           length (transports_of_direction ''send'' p') = 1 \<and>
           length (transports_of_direction ''recv'' p') = 0"
proof -
  let ?pl = "empty_payload\<lparr>pl_direction := ''send''\<rparr>"
  let ?t = "\<lparr>t_id = ''t'', t_iceParameters = ''ice'', t_iceCandidates = ''cand'',
             t_dtlsParameters = ''dtls''\<rparr>"
  have a: "map_get (peers demoServer) (p_id peerD) = Some peerD"
    by (simp add: demoServer_def peerD_def map_get_def)
  have b: "router_createWebRtcTransport demoEngine (engine demoServer) = (Inr ?t, Suc 0)"
    by (simp add: demoEngine_def demoServer_def fresh_id_def)
  have c: "\<not> map_has (p_transports peerD) (t_id ?t)"
    by (simp add: peerD_def map_has_def map_get_def)
  from createTransport_adds_transport [OF a b c, of ?pl] obtain s' p' where
    h: "createTransportAndSendParameters demoEngine peerD ?pl demoServer = Returned s'"
       "map_get (peers s') (p_id peerD) = Some p'"
       "\<forall>d. length (transports_of_direction d p') =
              length (transports_of_direction d peerD) + (if d = pl_direction ?pl then 1 else 0)"
    by blast
  have "length (transports_of_direction ''send'' p') = 1"
    using h(3) [rule_format, of "''send''"]
    by (simp add: transports_of_direction_def peerD_def map_values_def empty_payload_def)
  moreover have "length (transports_of_direction ''recv'' p') = 0"
    using h(3) [rule_format, of "''recv''"]
    by (simp add: transports_of_direction_def peerD_def map_values_def empty_payload_def)
  ultimately show ?thesis
    using h(1,2) by (auto simp: peerD_def)
qed

text \<open>
  Claim C3 as stated fails: after two \<open>createTransport\<close> requests with direction \<open>send\<close>,
  peer D holds two send transports.
\<close>

theorem two_send_transports_counterexample:
  "map_option (\<lambda>p. map (\<lambda>e. (fst e, td_direction (snd e))) (p_transports p))
     (map_get (peers (run demoEngine [createSendTransport, createSendTransport] demoServer)) ''D'')
     = Some [(''t'', ''send''), (''ti'', ''send'')]"
  by code_simp

subsection \<open>Broadcasts\<close>

text \<open>
  A broadcast appends one frame per id that is registered with an open socket, in the order of
  the ids, and changes nothing else.
\<close>

lemma recipients_Nil [simp]: "recipients ps [] = []"
  by (simp add: recipients_def)

lemma recipients_Cons:
  "recipients ps (i # is) =
     (case map_get ps i of
        None \<Rightarrow> recipients ps is
      | Some q \<Rightarrow> (if readyState (p_socket q) = OPEN then q # recipients ps is
                   else recipients ps is))"
  by (simp add: recipients_def split: option.splits)

lemma notifyPeers_eq:
  "notifyPeers f is s =
     s\<lparr>outbound := outbound s @ map (\<lambda>q. (p_socket q, f)) (recipients (peers s) is)\<rparr>"
proof (induction "is" arbitrary: s)
  case Nil
  show ?case by (simp add: notifyPeers_def)
next
  case (Cons i "is")
  have "notifyPeers f (i # is) s = notifyPeers f is (notifyPeer f i s)"
    by (simp add: notifyPeers_def)
  then show ?case
    by (simp add: Cons.IH notifyPeer_def recipients_Cons sendMessage_def split: option.splits)
qed

lemma length_recipients: "length (recipients ps is) \<le> length is"
  by (induction "is") (auto simp: recipients_Cons split: option.splits)

lemma recipients_mem:
  "i \<in> set is \<Longrightarrow> map_get ps i = Some q \<Longrightarrow> readyState (p_socket q) = OPEN
     \<Longrightarrow> q \<in> set (recipients ps is)"
  by (induction "is") (auto simp: recipients_Cons split: option.splits)

lemma recipients_all:
  "\<forall>i\<in>set is. \<exists>q. map_get ps i = Some q \<and> readyState (p_socket q) = OPEN
     \<Longrightarrow> length (recipients ps is) = length is"
  by (induction "is") (auto simp: recipients_Cons split: option.splits)

lemma existingPeersInfo_ids: "info_peerId ` set (existingPeersInfo ps is) \<subseteq> set is"
  by (induction "is") (auto split: option.splits)

lemma map_has_map_set: "map_has (map_set k v m) k' = (k' = k \<or> map_has m k')"
  by (simp add: map_has_def map_get_map_set)

lemma map_get_map_delete: "map_get (map_delete k m) k' = (if k' = k then None else map_get m k')"
  by (induction m) (auto simp: map_get_def map_delete_def)

lemma map_has_map_delete: "map_has (map_delete k m) k' = (k' \<noteq> k \<and> map_has m k')"
  by (simp add: map_has_def map_get_map_delete)

lemma joined_room_members:
  "r_peers (case map_get (if \<not> map_has rs rid then map_set rid \<lparr>r_id = rid, r_peers = []\<rparr> rs else rs) rid of
              Some r \<Rightarrow> r | None \<Rightarrow> \<lparr>r_id = rid, r_peers = []\<rparr>) = members rs rid"
  by (auto simp: members_def map_has_def map_get_map_set split: option.splits)

subsection \<open>Joining a room\<close>

text \<open>
  What \<open>existingProducers\<close> holds, written out: for each listed id that is registered with
  at least one producer, in list order, the id with that peer's producers (id and kind) in the
  order of its producer map. Marking the joining peer's \<open>roomId\<close> does not change it.
\<close>

lemma existingPeersInfo_snapshot:
  "p_id p' \<notin> set is \<Longrightarrow>
   existingPeersInfo (mutate_peer p' ps) is =
     List.map_filter
       (\<lambda>i. case map_of ps i of
               None \<Rightarrow> None
             | Some q \<Rightarrow>
                 (if p_producers q = [] then None
                  else Some \<lparr>info_peerId = i,
                             info_producers =
                               map (\<lambda>e. \<lparr>ref_producerId = pr_id (pd_producer (snd e)),
                                          ref_kind = pd_kind (snd e)\<rparr>) (p_producers q)\<rparr>)) is"
proof (induction "is")
  case Nil
  show ?case by simp
next
  case (Cons i "is")
  then have i: "i \<noteq> p_id p'" and rest: "p_id p' \<notin> set is"
    by auto
  have look: "map_get (mutate_peer p' ps) i = map_of ps i"
    using i by (simp add: map_get_mutate_peer) (simp add: map_get_def)
  show ?case
    using Cons.IH [OF rest]
    by (simp add: look producerRefs_def map_values_def comp_def
        split: option.splits)
qed

text \<open>
  Claim C4. The handler always returns. If the joining peer's socket is open it sends exactly one
  \<open>roomJoined\<close> frame, to the joining peer; every other frame it sends is a \<open>newPeer\<close>
  notification. The \<open>peers\<close> list of \<open>roomJoined\<close> is the membership of the room in the state
  before the request, without the joining peer's id. \<open>existingProducers\<close> is the snapshot taken
  over that list: one entry, in membership order, for every listed member that is registered and
  has at least one producer, carrying all of that member's producers with id and kind, and no
  other entry. Neither list names the joining peer; for a room that is absent or has no member
  both are empty. The joining peer is a member afterwards.
\<close>

theorem roomJoined_excludes_joiner:
  "\<exists>s' ps eps rest.
     addPeerToRoomAndNotifyOthers p pl s = Returned s' \<and>
     sent_since s s' =
       (if readyState (p_socket p) = OPEN
        then [(p_socket p, RoomJoined (pl_roomId pl) ps eps)] else []) @ rest \<and>
     (\<forall>e\<in>set rest. snd e = NewPeer (p_id p)) \<and>
     ps = filter (\<lambda>i. i \<noteq> p_id p) (members (rooms s) (pl_roomId pl)) \<and>
     eps = List.map_filter
             (\<lambda>i. case map_of (peers s) i of
                     None \<Rightarrow> None
                   | Some q \<Rightarrow>
                       (if p_producers q = [] then None
                        else Some \<lparr>info_peerId = i,
                                   info_producers =
                                     map (\<lambda>e. \<lparr>ref_producerId = pr_id (pd_producer (snd e)),
                                                ref_kind = pd_kind (snd e)\<rparr>) (p_producers q)\<rparr>))
             ps \<and>
     p_id p \<notin> set ps \<and>
     p_id p \<notin> info_peerId ` set eps \<and>
     (members (rooms s) (pl_roomId pl) = [] \<longrightarrow> ps = [] \<and> eps = []) \<and>
     p_id p \<in> set (members (rooms s') (pl_roomId pl))"
proof -
  let ?rid = "pl_roomId pl"
  let ?rooms1 = "if \<not> map_has (rooms s) ?rid
                 then map_set ?rid \<lparr>r_id = ?rid, r_peers = []\<rparr> (rooms s) else rooms s"
  let ?rm = "case map_get ?rooms1 ?rid of Some r \<Rightarrow> r | None \<Rightarrow> \<lparr>r_id = ?rid, r_peers = []\<rparr>"
  let ?ps = "filter (\<lambda>i. i \<noteq> p_id p) (members (rooms s) ?rid)"
  let ?rm' = "?rm\<lparr>r_peers := set_add (p_id p) (r_peers ?rm)\<rparr>"
  let ?p' = "p\<lparr>p_roomId := Some ?rid\<rparr>"
  let ?s1 = "s\<lparr>rooms := map_set ?rid ?rm' ?rooms1, peers := mutate_peer ?p' (peers s)\<rparr>"
  let ?eps = "existingPeersInfo (peers ?s1) ?ps"
  let ?s2 = "sendMessage (p_socket p) (RoomJoined ?rid ?ps ?eps) ?s1"
  let ?rest = "map (\<lambda>q. (p_socket q, NewPeer (p_id p))) (recipients (peers ?s2) ?ps)"
  let ?s' = "notifyPeers (NewPeer (p_id p)) ?ps ?s2"
  have ex: "existingPeers ?rm p = ?ps"
    unfolding existingPeers_def joined_room_members ..
  have 1: "addPeerToRoomAndNotifyOthers p pl s = Returned ?s'"
    unfolding addPeerToRoomAndNotifyOthers_def Let_def ex ..
  have 2: "sent_since s ?s' =
             (if readyState (p_socket p) = OPEN
              then [(p_socket p, RoomJoined ?rid ?ps ?eps)] else []) @ ?rest"
    by (rule sent_since_append) (simp add: notifyPeers_eq outbound_sendMessage)
  have 3: "\<forall>e\<in>set ?rest. snd e = NewPeer (p_id p)"
    by auto
  have 4: "p_id p \<notin> set ?ps"
    by simp
  have "p_id ?p' \<notin> set ?ps"
    by simp
  from existingPeersInfo_snapshot [OF this, of "peers s"]
  have 5: "?eps = List.map_filter
             (\<lambda>i. case map_of (peers s) i of
                     None \<Rightarrow> None
                   | Some q \<Rightarrow>
                       (if p_producers q = [] then None
                        else Some \<lparr>info_peerId = i,
                                   info_producers =
                                     map (\<lambda>e. \<lparr>ref_producerId = pr_id (pd_producer (snd e)),
                                                ref_kind = pd_kind (snd e)\<rparr>) (p_producers q)\<rparr>))
             ?ps"
    by simp
  have 6: "p_id p \<notin> info_peerId ` set ?eps"
    using existingPeersInfo_ids [of "peers ?s1" ?ps] by auto
  have 7: "members (rooms s) ?rid = [] \<longrightarrow> ?ps = [] \<and> ?eps = []"
    by simp
  have 8: "p_id p \<in> set (members (rooms ?s') ?rid)"
    by (simp add: notifyPeers_eq members_def map_get_map_set set_add_def)
  from 1 2 3 4 5 6 7 8 show ?thesis
    by blast
qed

text \<open>
  Claim C4 at peer B joining the absent room \<open>r3\<close> (empty lists) and the room \<open>r1\<close> of A, C, D,
  where \<open>existingProducers\<close> is the one entry of A with video \<open>v1\<close> and audio \<open>a1\<close>.
\<close>

theorem roomJoined_excludes_joiner_witness:
  "members (rooms demoServer) ''r3'' = [] \<and>
   (\<exists>s' rest. addPeerToRoomAndNotifyOthers peerB (empty_payload\<lparr>pl_roomId := ''r3''\<rparr>) demoServer
                 = Returned s' \<and>
               sent_since demoServer s' = (sockB, RoomJoined ''r3'' [] []) # rest) \<and>
   (\<exists>s' rest. addPeerToRoomAndNotifyOthers peerB (empty_payload\<lparr>pl_roomId := ''r1''\<rparr>) demoServer
                 = Returned s' \<and>
               sent_since demoServer s' =
                 (sockB, RoomJoined ''r1'' [''A'', ''C'', ''D'']
                    [\<lparr>info_peerId = ''A'',
                      info_producers = [\<lparr>ref_producerId = ''v1'', ref_kind = ''video''\<rparr>,
                                        \<lparr>ref_producerId = ''a1'', ref_kind = ''audio''\<rparr>]\<rparr>]) # rest)"
proof -
  have m3: "members (rooms demoServer) ''r3'' = []"
    by (simp add: members_def demoServer_def map_get_def)
  have m1: "members (rooms demoServer) ''r1'' = [''A'', ''C'', ''D'']"
    by (simp add: members_def demoServer_def map_get_def)
  have b: "readyState sockB = OPEN" "p_socket peerB = sockB" "p_id peerB = ''B''"
    by (simp_all add: peerB_def sockB_def OPEN_def)
  have look: "map_of (peers demoServer) ''A'' = Some peerA" "map_of (peers demoServer) ''C'' = Some peerC"
    "map_of (peers demoServer) ''D'' = Some peerD"
    by (simp_all add: demoServer_def)
  have prods: "p_producers peerA = [demoProducer ''v1'' ''video'', demoProducer ''a1'' ''audio'']"
    "p_producers peerC = []" "p_producers peerD = []"
    by (simp_all add: peerA_def peerC_def peerD_def)
  have "\<exists>s' rest. addPeerToRoomAndNotifyOthers peerB (empty_payload\<lparr>pl_roomId := ''r3''\<rparr>) demoServer
                 = Returned s' \<and>
               sent_since demoServer s' = (sockB, RoomJoined ''r3'' [] []) # rest"
    using roomJoined_excludes_joiner [of peerB "empty_payload\<lparr>pl_roomId := ''r3''\<rparr>" demoServer]
    by (auto simp: m3 b)
  moreover have "\<exists>s' rest. addPeerToRoomAndNotifyOthers peerB (empty_payload\<lparr>pl_roomId := ''r1''\<rparr>) demoServer
                 = Returned s' \<and>
               sent_since demoServer s' =
                 (sockB, RoomJoined ''r1'' [''A'', ''C'', ''D'']
                    [\<lparr>info_peerId = ''A'',
                      info_producers = [\<lparr>ref_producerId = ''v1'', ref_kind = ''video''\<rparr>,
                                        \<lparr>ref_producerId = ''a1'', ref_kind = ''audio''\<rparr>]\<rparr>]) # rest"
    using roomJoined_excludes_joiner [of peerB "empty_payload\<lparr>pl_roomId := ''r1''\<rparr>" demoServer]
    by (auto simp: m1 b look prods demoProducer_def)
  ultimately show ?thesis
    using m3 by blast
qed

subsection \<open>Disconnection\<close>

text \<open>
  Closing the transports touches the engine only.
\<close>

lemma closeAllTransports_fields [simp]:
  "peers (closeAllTransports E p s) = peers s"
  "rooms (closeAllTransports E p s) = rooms s"
  "outbound (closeAllTransports E p s) = outbound s"
  "console (closeAllTransports E p s) = console s"
  by (simp_all add: closeAllTransports_def)

lemma removeFromRoom_eq:
  assumes "p_roomId p = Some rid" and "rid \<noteq> []" and "map_get (rooms s) rid = Some rm"
  shows "removeFromRoom peerId p s =
           s\<lparr>rooms := (if set_delete peerId (r_peers rm) = []
                        then map_delete rid (rooms s)
                        else map_set rid (rm\<lparr>r_peers := set_delete peerId (r_peers rm)\<rparr>) (rooms s)),
              outbound := outbound s @
                map (\<lambda>q. (p_socket q, PeerLeft peerId))
                  (recipients (peers s) (set_delete peerId (r_peers rm)))\<rparr>"
proof -
  have "map_delete rid (map_set rid v m) = map_delete rid m" for v and m :: "(room_id \<times> room) list"
    by (induction m) (auto simp: map_delete_def)
  then show ?thesis
    using assms by (simp add: removeFromRoom_def truthy_roomId_def Let_def notifyPeers_eq)
qed

text \<open>
  Claim C7, as amended. Let a registered peer whose \<open>roomId\<close> is a non-empty string naming a
  registered room disconnect, and let \<open>remaining\<close> be the room's members without it. The frames
  sent are exactly one \<open>peerLeft\<close> with the peer's id per remaining member that is registered
  with an open socket, in membership order; such a member does receive it; members that are not
  registered or whose socket is not open get nothing, and neither does the leaving peer. The
  room stays registered if and only if \<open>remaining\<close> is not empty, and then holds exactly
  \<open>remaining\<close>. The peer is removed from the registry in the last step: it is still registered
  in the state \<open>mid\<close> reached after the room step, nothing is sent after \<open>mid\<close>, and it is not
  registered in the end.
\<close>

theorem disconnect_notifies_open_members:
  assumes reg: "map_get (peers s) peerId = Some p"
    and inroom: "p_roomId p = Some rid" "rid \<noteq> []"
    and room: "map_get (rooms s) rid = Some rm"
  shows "let remaining = set_delete peerId (r_peers rm);
             mid = removeFromRoom peerId p (closeAllTransports E p s);
             s' = handlePeerDisconnection E peerId s
         in sent_since s s' =
              map (\<lambda>q. (p_socket q, PeerLeft peerId)) (recipients (peers s) remaining) \<and>
            (\<forall>m\<in>set remaining. \<forall>q. map_get (peers s) m = Some q \<and> readyState (p_socket q) = OPEN
                \<longrightarrow> (p_socket q, PeerLeft peerId) \<in> set (sent_since s s')) \<and>
            length (sent_since s s') \<le> length remaining \<and>
            peerId \<notin> set remaining \<and>
            (distinct (r_peers rm) \<longrightarrow> distinct remaining) \<and>
            (map_has (rooms s') rid \<longleftrightarrow> remaining \<noteq> []) \<and>
            (remaining \<noteq> [] \<longrightarrow> members (rooms s') rid = remaining) \<and>
            removePeer peerId mid = s' \<and>
            map_get (peers mid) peerId = Some p \<and>
            outbound s' = outbound mid \<and>
            \<not> map_has (peers s') peerId"
proof -
  let ?rem = "set_delete peerId (r_peers rm)"
  let ?mid = "removeFromRoom peerId p (closeAllTransports E p s)"
  let ?s' = "handlePeerDisconnection E peerId s"
  let ?sent = "map (\<lambda>q. (p_socket q, PeerLeft peerId)) (recipients (peers s) ?rem)"
  have room': "map_get (rooms (closeAllTransports E p s)) rid = Some rm"
    using room by simp
  note mid = removeFromRoom_eq [OF inroom room', of peerId]
  have s': "?s' = removePeer peerId ?mid"
    using reg by (simp add: handlePeerDisconnection_def)
  have out: "outbound ?s' = outbound s @ ?sent"
    by (simp add: s' removePeer_def mid)
  have 1: "sent_since s ?s' = ?sent"
    by (rule sent_since_append) (rule out)
  have 2: "\<forall>m\<in>set ?rem. \<forall>q. map_get (peers s) m = Some q \<and> readyState (p_socket q) = OPEN
             \<longrightarrow> (p_socket q, PeerLeft peerId) \<in> set (sent_since s ?s')"
    unfolding 1 using recipients_mem by fastforce
  have 3: "length (sent_since s ?s') \<le> length ?rem"
    unfolding 1 by (simp add: length_recipients)
  have 4: "peerId \<notin> set ?rem"
    by (simp add: set_delete_def)
  have 5: "distinct (r_peers rm) \<longrightarrow> distinct ?rem"
    by (simp add: set_delete_def distinct_removeAll)
  have 6: "map_has (rooms ?s') rid \<longleftrightarrow> ?rem \<noteq> []"
    by (simp add: s' removePeer_def mid map_has_map_delete map_has_map_set)
  have 7: "?rem \<noteq> [] \<longrightarrow> members (rooms ?s') rid = ?rem"
    by (simp add: s' removePeer_def mid members_def map_get_map_set)
  have 8: "map_get (peers ?mid) peerId = Some p"
    using reg by (simp add: mid)
  have 9: "outbound ?s' = outbound ?mid"
    by (simp add: s' removePeer_def)
  have 10: "\<not> map_has (peers ?s') peerId"
    by (simp add: s' removePeer_def map_has_map_delete)
  from 1 2 3 4 5 6 7 s' [symmetric] 8 9 10 show ?thesis
    unfolding Let_def by blast
qed

text \<open>
  The amended claim C7 when A leaves \<open>r1\<close> (C closing, D open) and when B leaves \<open>r2\<close> alone.
\<close>

theorem disconnect_notifies_open_members_witness:
  "sent_since demoServer (handlePeerDisconnection demoEngine ''A'' demoServer)
     = [(sockD, PeerLeft ''A'')] \<and>
   members (rooms (handlePeerDisconnection demoEngine ''A'' demoServer)) ''r1'' = [''C'', ''D''] \<and>
   \<not> map_has (peers (handlePeerDisconnection demoEngine ''A'' demoServer)) ''A'' \<and>
   \<not> map_has (rooms (handlePeerDisconnection demoEngine ''B'' demoServer)) ''r2''"
proof -
  have a: "map_get (peers demoServer) ''A'' = Some peerA"
    by (simp add: demoServer_def map_get_def)
  have b: "p_roomId peerA = Some ''r1''" "''r1'' \<noteq> []"
    by (simp_all add: peerA_def)
  have c: "map_get (rooms demoServer) ''r1'' = Some \<lparr>r_id = ''r1'', r_peers = [''A'', ''C'', ''D'']\<rparr>"
    by (simp add: demoServer_def map_get_def)
  have a': "map_get (peers demoServer) ''B'' = Some peerB"
    by (simp add: demoServer_def map_get_def)
  have b': "p_roomId peerB = Some ''r2''" "''r2'' \<noteq> []"
    by (simp_all add: peerB_def)
  have c': "map_get (rooms demoServer) ''r2'' = Some \<lparr>r_id = ''r2'', r_peers = [''B'']\<rparr>"
    by (simp add: demoServer_def map_get_def)
  have r: "recipients (peers demoServer) [''C'', ''D''] = [peerD]"
    by (simp add: recipients_Cons demoServer_def map_get_def peerC_def peerD_def sockC_def
        sockD_def OPEN_def)
  have d: "p_socket peerD = sockD"
    by (simp add: peerD_def)
  from disconnect_notifies_open_members [OF a b c, of demoEngine]
  have "sent_since demoServer (handlePeerDisconnection demoEngine ''A'' demoServer)
          = [(sockD, PeerLeft ''A'')] \<and>
        members (rooms (handlePeerDisconnection demoEngine ''A'' demoServer)) ''r1'' = [''C'', ''D''] \<and>
        \<not> map_has (peers (handlePeerDisconnection demoEngine ''A'' demoServer)) ''A''"
    by (simp add: Let_def set_delete_def r d)
  moreover from disconnect_notifies_open_members [OF a' b' c', of demoEngine]
  have "\<not> map_has (rooms (handlePeerDisconnection demoEngine ''B'' demoServer)) ''r2''"
    by (simp add: Let_def set_delete_def)
  ultimately show ?thesis
    by blast
qed

text \<open>
  Claim C7 as stated fails: when A disconnects, C remains a registered member of \<open>r1\<close>, but
  its socket is closing and it is sent no \<open>peerLeft\<close>; only D is.
\<close>

theorem disconnect_skips_closing_member_counterexample:
  "''C'' \<in> set (members (rooms (handlePeerDisconnection demoEngine ''A'' demoServer)) ''r1'') \<and>
   map_get (peers (handlePeerDisconnection demoEngine ''A'' demoServer)) ''C'' = Some peerC \<and>
   p_socket peerC = sockC \<and>
   sent_since demoServer (handlePeerDisconnection demoEngine ''A'' demoServer)
     = [(sockD, PeerLeft ''A'')]"
  by code_simp


text \<open>
  A room named by the empty string is outside the theorem above: \<open>if (peer.roomId)\<close> is false
  for \<open>""\<close>, so the room step is skipped, nothing is sent and the id stays in the room.
\<close>

lemma disconnect_with_empty_room_id:
  assumes "map_get (peers s) peerId = Some p" and "p_roomId p = Some []"
  shows "outbound (handlePeerDisconnection E peerId s) = outbound s \<and>
         rooms (handlePeerDisconnection E peerId s) = rooms s"
  using assms
  by (simp add: handlePeerDisconnection_def removePeer_def removeFromRoom_def truthy_roomId_def)

subsection \<open>Refused capabilities\<close>

text \<open>
  With \<open>canConsume\<close> false the handler throws before it touches any state.
\<close>

lemma createConsumer_refused:
  assumes "\<not> router_canConsume E (pl_producerId pl) (pl_rtpCapabilities pl) (engine s)"
  shows "createConsumerForRemoteProducer E p pl s =
           (if findProducerPeer (peers s) (pl_producerId pl) = None
            then Threw ProducerNotFound s else Threw CannotConsume s)"
  using assms by (simp add: createConsumerForRemoteProducer_def Let_def split: option.splits)

lemma onMessage_consume:
  "onMessage E peerId sock (request ''consume'' pl) s =
     (case map_get (peers s) peerId of
        None \<Rightarrow> s\<lparr>console := console s @ [ConsoleError ''[Message] Peer not found:'' peerId]\<rparr>
      | Some p \<Rightarrow>
          (case createConsumerForRemoteProducer E p pl s of
             Returned s' \<Rightarrow> s'
           | Threw e s' \<Rightarrow> catchError sock e s'))"
  by (simp add: onMessage_def request_def routeIncomingMessage_def Let_def split: option.splits)

text \<open>
  Claim C6. Let the engine's \<open>canConsume\<close> be false for the producer id and capabilities of a
  consume request. After the listener has handled the request, the peer registry (so every
  consumer map), the rooms and the engine are as before; the only frames sent are error replies
  to the requesting socket; when the requester is registered and the producer exists, the
  exception \<open>Cannot consume\<close> is caught by the listener, which logs it and replies with the error.
  The events that follow are handled from that state: nothing is aborted.
\<close>

theorem refused_consume_is_contained:
  assumes "\<not> router_canConsume E (pl_producerId pl) (pl_rtpCapabilities pl) (engine s)"
  shows "let s' = onMessage E peerId sock (request ''consume'' pl) s in
           peers s' = peers s \<and> rooms s' = rooms s \<and> engine s' = engine s \<and>
           set (sent_since s s') \<subseteq>
             {(sock, ErrorFrame ''Cannot consume''), (sock, ErrorFrame ''Producer not found'')} \<and>
           (map_has (peers s) peerId \<and> findProducerPeer (peers s) (pl_producerId pl) \<noteq> None
              \<longrightarrow> s' = catchError sock CannotConsume s) \<and>
           (\<forall>evs. run E (Message peerId sock (request ''consume'' pl) # evs) s = run E evs s')"
proof -
  let ?s' = "onMessage E peerId sock (request ''consume'' pl) s"
  note r = createConsumer_refused [OF assms]
  have 1: "peers ?s' = peers s \<and> rooms ?s' = rooms s \<and> engine ?s' = engine s"
    by (simp add: onMessage_consume r catchError_def split: option.splits)
  have "\<exists>fs. outbound ?s' = outbound s @ fs \<and>
          set fs \<subseteq> {(sock, ErrorFrame ''Cannot consume''), (sock, ErrorFrame ''Producer not found'')}"
    by (auto simp: onMessage_consume r catchError_def outbound_sendMessage split: option.splits)
  then have 2: "set (sent_since s ?s') \<subseteq>
             {(sock, ErrorFrame ''Cannot consume''), (sock, ErrorFrame ''Producer not found'')}"
    by (auto simp: sent_since_def)
  have 3: "map_has (peers s) peerId \<and> findProducerPeer (peers s) (pl_producerId pl) \<noteq> None
              \<longrightarrow> ?s' = catchError sock CannotConsume s"
    by (auto simp: onMessage_consume r map_has_def split: option.splits)
  have 4: "\<forall>evs. run E (Message peerId sock (request ''consume'' pl) # evs) s = run E evs ?s'"
    by (simp add: run_def)
  from 1 2 3 4 show ?thesis
    unfolding Let_def by blast
qed

text \<open>
  Claim C6 at peer B: a refused request for \<open>v1\<close>, then an accepted one, which creates consumer \<open>c\<close>.
\<close>

theorem refused_consume_is_contained_witness:
  "\<not> router_canConsume demoEngine ''v1'' ''none'' (engine demoServer) \<and>
   peers (run demoEngine [consumeRefused] demoServer) = peers demoServer \<and>
   sent_since demoServer (run demoEngine [consumeRefused] demoServer)
     = [(sockB, ErrorFrame ''Cannot consume'')] \<and>
   run demoEngine [consumeRefused, consumeV1] demoServer
     = run demoEngine [consumeV1] (run demoEngine [consumeRefused] demoServer) \<and>
   map_option (\<lambda>p. map fst (p_consumers p))
     (map_get (peers (run demoEngine [consumeRefused, consumeV1] demoServer)) ''B'') = Some [''c'']"
proof -
  let ?pl = "empty_payload\<lparr>pl_producerId := ''v1'', pl_rtpCapabilities := ''none''\<rparr>"
  have h: "\<not> router_canConsume demoEngine (pl_producerId ?pl) (pl_rtpCapabilities ?pl) (engine demoServer)"
    by (simp add: demoEngine_def empty_payload_def)
  have reg: "map_has (peers demoServer) ''B''"
    by (simp add: demoServer_def map_has_def map_get_def)
  have own: "findProducerPeer (peers demoServer) (pl_producerId ?pl) \<noteq> None"
    by (simp add: findProducerPeer_def demoServer_def peerA_def demoProducer_def map_has_def
        map_get_def empty_payload_def)
  have o: "readyState sockB = OPEN"
    by (simp add: sockB_def OPEN_def)
  note t = refused_consume_is_contained [OF h, of "''B''" sockB, unfolded Let_def]
  have e: "run demoEngine [consumeRefused] demoServer = catchError sockB CannotConsume demoServer"
    using t reg own by (simp add: run_def consumeRefused_def)
  have 1: "peers (run demoEngine [consumeRefused] demoServer) = peers demoServer"
    by (simp add: e catchError_def)
  have 2: "sent_since demoServer (run demoEngine [consumeRefused] demoServer)
             = [(sockB, ErrorFrame ''Cannot consume'')]"
    by (rule sent_since_append) (simp add: e catchError_def outbound_sendMessage o)
  have 3: "run demoEngine [consumeRefused, consumeV1] demoServer
             = run demoEngine [consumeV1] (run demoEngine [consumeRefused] demoServer)"
    by (simp add: run_def)
  have 4: "map_option (\<lambda>p. map fst (p_consumers p))
     (map_get (peers (run demoEngine [consumeRefused, consumeV1] demoServer)) ''B'') = Some [''c'']"
    by code_simp
  from h 1 2 3 4 show ?thesis
    by (simp add: empty_payload_def)
qed

subsection \<open>Resuming a consumer\<close>

text \<open>
  A resume request for a consumer the peer holds is passed to the engine; when the engine
  resolves, the reply is sent and nothing but the engine state changes.
\<close>

lemma onMessage_resume:
  assumes "map_get (peers s) peerId = Some p"
    and "map_get (p_consumers p) (pl_consumerId pl) = Some cd"
    and "consumer_resume E (c_id (cd_consumer cd)) (engine s) = (Inr u, e')"
  shows "onMessage E peerId sock (request ''resumeConsumer'' pl) s =
           sendMessage (p_socket p) (ConsumerResumed (pl_consumerId pl)) (s\<lparr>engine := e'\<rparr>)"
  using assms
  by (simp add: onMessage_def request_def routeIncomingMessage_def resumePausedConsumer_def Let_def)

text \<open>
  Claim C8. Let a registered peer hold the consumer id, and let the engine resolve both resume
  calls (the second is made on an already resumed consumer; the engine, not the server, decides
  that it is not an error). Then both requests are accepted: each is forwarded to the engine,
  with no look at whether the consumer was resumed before, and each is answered with
  \<open>consumerResumed\<close> on the peer's open socket. Peers, rooms and console are untouched. When the
  engine's second resume is a no-op (\<open>e2 = e1\<close>), the second request changes nothing at all
  besides appending its reply.
\<close>

theorem resume_twice_accepted:
  assumes reg: "map_get (peers s) peerId = Some p"
    and held: "map_get (p_consumers p) (pl_consumerId pl) = Some cd"
    and first: "consumer_resume E (c_id (cd_consumer cd)) (engine s) = (Inr (), e1)"
    and second: "consumer_resume E (c_id (cd_consumer cd)) e1 = (Inr (), e2)"
  shows "let resume = request ''resumeConsumer'' pl;
             reply = (p_socket p, ConsumerResumed (pl_consumerId pl));
             s1 = onMessage E peerId sock resume s;
             s2 = onMessage E peerId sock resume s1
         in s1 = sendMessage (p_socket p) (ConsumerResumed (pl_consumerId pl)) (s\<lparr>engine := e1\<rparr>) \<and>
            s2 = sendMessage (p_socket p) (ConsumerResumed (pl_consumerId pl)) (s1\<lparr>engine := e2\<rparr>) \<and>
            (readyState (p_socket p) = OPEN \<longrightarrow>
               sent_since s s1 = [reply] \<and> sent_since s1 s2 = [reply]) \<and>
            peers s2 = peers s \<and> rooms s2 = rooms s \<and> console s2 = console s \<and>
            engine s2 = e2 \<and>
            (e2 = e1 \<longrightarrow> s2 = s1\<lparr>outbound := outbound s1 @
                                   (if readyState (p_socket p) = OPEN then [reply] else [])\<rparr>)"
proof -
  let ?f = "ConsumerResumed (pl_consumerId pl)"
  define s1 where "s1 = onMessage E peerId sock (request ''resumeConsumer'' pl) s"
  define s2 where "s2 = onMessage E peerId sock (request ''resumeConsumer'' pl) s1"
  have 1: "s1 = sendMessage (p_socket p) ?f (s\<lparr>engine := e1\<rparr>)"
    unfolding s1_def by (rule onMessage_resume [OF reg held first])
  have reg1: "map_get (peers s1) peerId = Some p"
    using reg by (simp add: 1)
  have second1: "consumer_resume E (c_id (cd_consumer cd)) (engine s1) = (Inr (), e2)"
    using second by (simp add: 1)
  have 2: "s2 = sendMessage (p_socket p) ?f (s1\<lparr>engine := e2\<rparr>)"
    unfolding s2_def by (rule onMessage_resume [OF reg1 held second1])
  have 3: "readyState (p_socket p) = OPEN \<longrightarrow>
             sent_since s s1 = [(p_socket p, ?f)] \<and> sent_since s1 s2 = [(p_socket p, ?f)]"
    by (simp add: sent_since_def 2 outbound_sendMessage) (simp add: 1 outbound_sendMessage)
  have 4: "peers s2 = peers s \<and> rooms s2 = rooms s \<and> console s2 = console s \<and> engine s2 = e2"
    by (simp add: 2) (simp add: 1)
  have 5: "e2 = e1 \<longrightarrow> s2 = s1\<lparr>outbound := outbound s1 @
                                   (if readyState (p_socket p) = OPEN then [(p_socket p, ?f)] else [])\<rparr>"
    by (simp add: 2 sendMessage_def) (simp add: 1 sendMessage_def)
  from 1 2 3 4 5 show ?thesis
    unfolding Let_def s1_def [symmetric] s2_def [symmetric] by blast
qed

text \<open>
  Claim C8 at peer B and its consumer \<open>c\<close>, with the engine whose resume is a no-op.
\<close>

theorem resume_twice_accepted_witness:
  "sent_since demoServer1 (run demoEngine [resumeC] demoServer1) = [(sockB, ConsumerResumed ''c'')] \<and>
   run demoEngine [resumeC, resumeC] demoServer1 =
     (run demoEngine [resumeC] demoServer1)
       \<lparr>outbound := outbound (run demoEngine [resumeC] demoServer1) @ [(sockB, ConsumerResumed ''c'')]\<rparr>"
proof -
  let ?pl = "empty_payload\<lparr>pl_consumerId := ''c''\<rparr>"
  let ?cd = "\<lparr>cd_consumer = \<lparr>c_id = ''c'', c_kind = ''video'', c_rtpParameters = ''rtp''\<rparr>,
              cd_producerId = ''v1'', cd_producerPeerId = ''A''\<rparr>"
  have a: "map_get (peers demoServer1) ''B'' = Some peerB1"
    by (simp add: demoServer1_def map_get_def)
  have b: "map_get (p_consumers peerB1) (pl_consumerId ?pl) = Some ?cd"
    by (simp add: peerB1_def map_get_def)
  have c: "consumer_resume demoEngine (c_id (cd_consumer ?cd)) (engine demoServer1) = (Inr (), 1)"
    by (simp add: demoEngine_def demoServer1_def)
  have d: "consumer_resume demoEngine (c_id (cd_consumer ?cd)) 1 = (Inr (), 1)"
    by (simp add: demoEngine_def)
  have o: "readyState (p_socket peerB1) = OPEN" "p_socket peerB1 = sockB"
    by (simp_all add: peerB1_def peerB_def sockB_def OPEN_def)
  have r: "run demoEngine [resumeC] s = onMessage demoEngine ''B'' sockB (request ''resumeConsumer'' ?pl) s"
          "run demoEngine [resumeC, resumeC] s =
             onMessage demoEngine ''B'' sockB (request ''resumeConsumer'' ?pl)
               (onMessage demoEngine ''B'' sockB (request ''resumeConsumer'' ?pl) s)" for s
    by (simp_all add: run_def resumeC_def)
  let ?s1 = "onMessage demoEngine ''B'' sockB (request ''resumeConsumer'' ?pl) demoServer1"
  let ?s2 = "onMessage demoEngine ''B'' sockB (request ''resumeConsumer'' ?pl) ?s1"
  note t = resume_twice_accepted [OF a b c d, of sockB, unfolded Let_def]
  from t o(1) have "sent_since demoServer1 ?s1 = [(p_socket peerB1, ConsumerResumed (pl_consumerId ?pl))]"
    by blast
  then have 1: "sent_since demoServer1 ?s1 = [(sockB, ConsumerResumed ''c'')]"
    by (simp add: o(2))
  from t have "?s2 = ?s1\<lparr>outbound := outbound ?s1 @
                 (if readyState (p_socket peerB1) = OPEN
                  then [(p_socket peerB1, ConsumerResumed (pl_consumerId ?pl))] else [])\<rparr>"
    by blast
  then have 2: "?s2 = ?s1\<lparr>outbound := outbound ?s1 @ [(sockB, ConsumerResumed ''c'')]\<rparr>"
    using o(1) by (simp add: o(2))
  from 1 2 show ?thesis
    unfolding r by (rule conjI)
qed

subsection \<open>The pending consumers of the client\<close>

text \<open>
  With an open socket every request is sent, in the order of the calls.
\<close>

lemma client_sendMessage_open:
  assumes "cl_socket c = Some sock" and "readyState sock = OPEN"
  shows "client_sendMessage type pl c = c\<lparr>cl_sent := cl_sent c @ [\<lparr>d_type = type, d_payload = pl\<rparr>]\<rparr>"
  using assms by (simp add: client_sendMessage_def)

lemma consume_each_open:
  assumes "cl_socket c = Some sock" and "readyState sock = OPEN"
  shows "fold (\<lambda>r. client_sendMessage ''consume'' (consumePayload caps r)) rs c =
           c\<lparr>cl_sent := cl_sent c @
               map (\<lambda>r. \<lparr>d_type = ''consume'', d_payload = consumePayload caps r\<rparr>) rs\<rparr>"
  using assms
proof (induction rs arbitrary: c)
  case Nil
  show ?case by simp
next
  case (Cons r rs)
  let ?c1 = "c\<lparr>cl_sent := cl_sent c @ [\<lparr>d_type = ''consume'', d_payload = consumePayload caps r\<rparr>]\<rparr>"
  have "cl_socket ?c1 = Some sock"
    using Cons.prems by simp
  from Cons.IH [OF this Cons.prems(2)] show ?case
    by (simp add: client_sendMessage_open [OF Cons.prems])
qed

lemma consumePending_open:
  assumes "cl_socket c = Some sock" and "readyState sock = OPEN"
  shows "consumePending caps pending c =
           c\<lparr>cl_sent := cl_sent c @
               map (\<lambda>r. \<lparr>d_type = ''consume'', d_payload = consumePayload caps r\<rparr>)
                 (concat (map info_producers pending))\<rparr>"
  using assms
proof (induction pending arbitrary: c)
  case Nil
  show ?case by (simp add: consumePending_def)
next
  case (Cons i pending)
  let ?c1 = "c\<lparr>cl_sent := cl_sent c @
               map (\<lambda>r. \<lparr>d_type = ''consume'', d_payload = consumePayload caps r\<rparr>)
                 (info_producers i)\<rparr>"
  have step: "consumePending caps (i # pending) c = consumePending caps pending ?c1"
    by (simp add: consumePending_def consume_each_open [OF Cons.prems])
  have "cl_socket ?c1 = Some sock"
    using Cons.prems by simp
  from Cons.IH [OF this Cons.prems(2)] show ?case
    by (simp add: step)
qed

text \<open>
  What the client does with the snapshot of \<open>roomJoined\<close>. A \<open>roomJoined\<close> frame stores its
  \<open>existingProducers\<close> in \<open>pendingConsumers\<close>, in order. When the receive transport is created
  (the device is loaded and \<open>transportCreated\<close> arrives with direction \<open>recv\<close>) and the socket is
  open, the handler returns normally, has sent exactly one \<open>consume\<close> request per queued producer
  reference, in queue order, after all earlier requests, and has emptied the queue. A later
  \<open>transportCreated\<close> for \<open>recv\<close> then sends nothing more.
\<close>

theorem pending_queue_drained_once:
  assumes dev: "cl_device c = Some caps"
    and sock: "cl_socket c = Some sock" "readyState sock = OPEN"
  shows "\<exists>c'. configureTransportAndProduce sendBranch tid ''recv'' c = Returned c' \<and>
           cl_sent c' = cl_sent c @
             map (\<lambda>r. \<lparr>d_type = ''consume'', d_payload = consumePayload caps r\<rparr>)
               (concat (map info_producers (cl_pendingConsumers c))) \<and>
           cl_pendingConsumers c' = [] \<and>
           cl_recvTransport c' = Some tid \<and>
           (\<forall>tid'. \<exists>c''. configureTransportAndProduce sendBranch tid' ''recv'' c' = Returned c'' \<and>
                     cl_sent c'' = cl_sent c' \<and> cl_pendingConsumers c'' = []) \<and>
           (\<forall>eps c0. cl_pendingConsumers
                       (outcome_state (setupLocalMediaAndTransports (Some eps) c0)) = eps)"
proof -
  let ?reqs = "map (\<lambda>r. \<lparr>d_type = ''consume'', d_payload = consumePayload caps r\<rparr>)
                 (concat (map info_producers (cl_pendingConsumers c)))"
  define c' where "c' = c\<lparr>cl_recvTransport := Some tid, cl_sent := cl_sent c @ ?reqs,
                          cl_pendingConsumers := []\<rparr>"
  have s1: "cl_socket (c\<lparr>cl_recvTransport := Some tid\<rparr>) = Some sock"
    using sock by simp
  have 1: "configureTransportAndProduce sendBranch tid ''recv'' c = Returned c'"
    using dev
    by (cases "cl_pendingConsumers c = []")
      (simp_all add: configureTransportAndProduce_def Let_def c'_def
        consumePending_open [OF s1 sock(2)])
  have 2: "cl_sent c' = cl_sent c @ ?reqs" "cl_pendingConsumers c' = []"
    "cl_recvTransport c' = Some tid"
    by (simp_all add: c'_def)
  have 3: "\<forall>tid'. \<exists>c''. configureTransportAndProduce sendBranch tid' ''recv'' c' = Returned c'' \<and>
                     cl_sent c'' = cl_sent c' \<and> cl_pendingConsumers c'' = []"
    using dev by (simp add: configureTransportAndProduce_def Let_def c'_def)
  have 4: "\<forall>eps c0. cl_pendingConsumers
                       (outcome_state (setupLocalMediaAndTransports (Some eps) c0)) = eps"
    by (simp add: setupLocalMediaAndTransports_def client_sendMessage_def split: option.splits)
  from 1 2 3 4 show ?thesis
    by blast
qed

text \<open>
  The drain at a client that queued video \<open>v1\<close> and audio \<open>a1\<close> of peer A.
\<close>

theorem pending_queue_drained_once_witness:
  "\<exists>c'. configureTransportAndProduce Returned ''tr'' ''recv'' demoClient = Returned c' \<and>
         map (\<lambda>d. (d_type d, pl_producerId (d_payload d))) (cl_sent c')
           = [(''consume'', ''v1''), (''consume'', ''a1'')] \<and>
         cl_pendingConsumers c' = []"
proof -
  have a: "cl_device demoClient = Some ''caps''"
    by (simp add: demoClient_def)
  have b: "cl_socket demoClient = Some sockB"
    by (simp add: demoClient_def)
  have c: "readyState sockB = OPEN"
    by (simp add: sockB_def OPEN_def)
  from pending_queue_drained_once [OF a b c, of Returned "''tr''"] show ?thesis
    by (auto simp: demoClient_def consumePayload_def empty_payload_def)
qed

text \<open>
  A \<open>newProducer\<close> notification never enters the queue: the client requests the producer at
  once, whether or not it has a receive transport.
\<close>

lemma newProducer_bypasses_queue:
  assumes "cl_device c = Some caps"
  shows "\<exists>c'. requestToConsumeNewProducer i c = Returned c' \<and>
              cl_pendingConsumers c' = cl_pendingConsumers c \<and>
              cl_recvTransport c' = cl_recvTransport c"
  using assms
  by (simp add: requestToConsumeNewProducer_def client_sendMessage_def split: option.splits)

text \<open>
  Claim C2, at an input where the client departs from it. The client of peer D has joined (its
  queue holds audio \<open>a1\<close> of A) and has no receive transport when the notification
  \<open>newProducer\<close> for \<open>v1\<close> arrives. This reference arrived before the receive transport
  existed, yet it is not queued: the client sends the \<open>consume\<close> request at once and leaves
  the queue as it was. The server refuses the request, since D has no receive transport (the
  error \<open>Recv transport not found\<close>, no consumer, registry unchanged). When the receive
  transport is created, the drain requests \<open>a1\<close> only; \<open>v1\<close> is not requested again.
\<close>

theorem newProducer_before_recv_transport_not_queued:
  "cl_recvTransport demoClientD = None \<and>
   (\<exists>c1 c2.
      requestToConsumeNewProducer ''v1'' demoClientD = Returned c1 \<and>
      cl_pendingConsumers c1 = cl_pendingConsumers demoClientD \<and>
      map (\<lambda>d. (d_type d, pl_producerId (d_payload d))) (cl_sent c1) = [(''consume'', ''v1'')] \<and>
      configureTransportAndProduce Returned ''tr'' ''recv'' c1 = Returned c2 \<and>
      map (\<lambda>d. (d_type d, pl_producerId (d_payload d))) (cl_sent c2)
        = [(''consume'', ''v1''), (''consume'', ''a1'')] \<and>
      cl_pendingConsumers c2 = []) \<and>
   findRecvTransport peerD = None \<and>
   map_has (p_producers peerA) ''v1'' \<and>
   sent_since demoServer
     (onMessage demoEngine ''D'' sockD
        (request ''consume'' (empty_payload\<lparr>pl_producerId := ''v1'', pl_rtpCapabilities := ''caps''\<rparr>))
        demoServer)
     = [(sockD, ErrorFrame ''Recv transport not found'')] \<and>
   peers (onMessage demoEngine ''D'' sockD
        (request ''consume'' (empty_payload\<lparr>pl_producerId := ''v1'', pl_rtpCapabilities := ''caps''\<rparr>))
        demoServer) = peers demoServer"
proof -
  define c1 where "c1 = demoClientD\<lparr>cl_sent :=
     [\<lparr>d_type = ''consume'',
       d_payload = empty_payload\<lparr>pl_producerId := ''v1'', pl_rtpCapabilities := ''caps''\<rparr>\<rparr>]\<rparr>"
  define c2 where "c2 = c1\<lparr>cl_recvTransport := Some ''tr'',
     cl_sent := cl_sent c1 @
       [\<lparr>d_type = ''consume'',
         d_payload = empty_payload\<lparr>pl_producerId := ''a1'', pl_rtpCapabilities := ''caps''\<rparr>\<rparr>],
     cl_pendingConsumers := []\<rparr>"
  have o: "readyState sockD = OPEN"
    by (simp add: sockD_def OPEN_def)
  have 0: "cl_recvTransport demoClientD = None"
    by (simp add: demoClientD_def)
  have 1: "requestToConsumeNewProducer ''v1'' demoClientD = Returned c1"
    by (simp add: c1_def requestToConsumeNewProducer_def client_sendMessage_def demoClientD_def o)
  have 2: "cl_pendingConsumers c1 = cl_pendingConsumers demoClientD"
    "map (\<lambda>d. (d_type d, pl_producerId (d_payload d))) (cl_sent c1) = [(''consume'', ''v1'')]"
    by (simp_all add: c1_def empty_payload_def)
  have 3: "configureTransportAndProduce Returned ''tr'' ''recv'' c1 = Returned c2"
    by (simp add: c2_def c1_def configureTransportAndProduce_def consumePending_def
        client_sendMessage_def consumePayload_def demoClientD_def o Let_def)
  have 4: "map (\<lambda>d. (d_type d, pl_producerId (d_payload d))) (cl_sent c2)
        = [(''consume'', ''v1''), (''consume'', ''a1'')]" "cl_pendingConsumers c2 = []"
    by (simp_all add: c2_def c1_def empty_payload_def)
  have client:
    "\<exists>c1 c2.
      requestToConsumeNewProducer ''v1'' demoClientD = Returned c1 \<and>
      cl_pendingConsumers c1 = cl_pendingConsumers demoClientD \<and>
      map (\<lambda>d. (d_type d, pl_producerId (d_payload d))) (cl_sent c1) = [(''consume'', ''v1'')] \<and>
      configureTransportAndProduce Returned ''tr'' ''recv'' c1 = Returned c2 \<and>
      map (\<lambda>d. (d_type d, pl_producerId (d_payload d))) (cl_sent c2)
        = [(''consume'', ''v1''), (''consume'', ''a1'')] \<and>
      cl_pendingConsumers c2 = []"
    apply (rule exI [of _ c1])
    apply (rule exI [of _ c2])
    apply (intro conjI)
         apply (rule 1 2 3 4)+
    done
  have 5: "findRecvTransport peerD = None" "map_has (p_producers peerA) ''v1''"
    by (simp_all add: findRecvTransport_def peerD_def peerA_def map_values_def map_has_def
        map_get_def demoProducer_def)
  have 6: "sent_since demoServer
     (onMessage demoEngine ''D'' sockD
        (request ''consume'' (empty_payload\<lparr>pl_producerId := ''v1'', pl_rtpCapabilities := ''caps''\<rparr>))
        demoServer)
     = [(sockD, ErrorFrame ''Recv transport not found'')]"
    by code_simp
  have 7: "peers (onMessage demoEngine ''D'' sockD
        (request ''consume'' (empty_payload\<lparr>pl_producerId := ''v1'', pl_rtpCapabilities := ''caps''\<rparr>))
        demoServer) = peers demoServer"
    by code_simp
  show ?thesis
    by (intro conjI) (rule 0 client 5 6 7)+
qed

subsection \<open>Undeliverable frames\<close>

text \<open>
  The handlers read the readiness of a socket only to decide whether to send. The lemmas below
  compare a run with the run in which every socket is closed.
\<close>

lemma mute_fields [simp]:
  "peers (mute s) = mute_peers (peers s)"
  "rooms (mute s) = rooms s"
  "engine (mute s) = engine s"
  "console (mute s) = console s"
  "outbound (mute s) = []"
  by (simp_all add: mute_def)

lemma mute_update [simp]:
  "mute (s\<lparr>engine := e\<rparr>) = (mute s)\<lparr>engine := e\<rparr>"
  "mute (s\<lparr>console := c\<rparr>) = (mute s)\<lparr>console := c\<rparr>"
  "mute (s\<lparr>rooms := r\<rparr>) = (mute s)\<lparr>rooms := r\<rparr>"
  "mute (s\<lparr>outbound := ob\<rparr>) = mute s"
  "mute (s\<lparr>peers := ps\<rparr>) = (mute s)\<lparr>peers := mute_peers ps\<rparr>"
  by (simp_all add: mute_def)

lemma mute_peer_fields [simp]:
  "p_id (mute_peer p) = p_id p"
  "p_socket (mute_peer p) = close_socket (p_socket p)"
  "p_transports (mute_peer p) = p_transports p"
  "p_producers (mute_peer p) = p_producers p"
  "p_consumers (mute_peer p) = p_consumers p"
  "p_roomId (mute_peer p) = p_roomId p"
  by (simp_all add: mute_peer_def)

lemma mute_peer_update [simp]:
  "(mute_peer p)\<lparr>p_transports := t\<rparr> = mute_peer (p\<lparr>p_transports := t\<rparr>)"
  "(mute_peer p)\<lparr>p_producers := pr\<rparr> = mute_peer (p\<lparr>p_producers := pr\<rparr>)"
  "(mute_peer p)\<lparr>p_consumers := c\<rparr> = mute_peer (p\<lparr>p_consumers := c\<rparr>)"
  "(mute_peer p)\<lparr>p_roomId := r\<rparr> = mute_peer (p\<lparr>p_roomId := r\<rparr>)"
  by (simp_all add: mute_peer_def)

lemma close_socket_not_open [simp]: "readyState (close_socket sock) \<noteq> OPEN"
  by (simp add: close_socket_def CLOSED_def OPEN_def)

lemma close_socket_idem [simp]: "close_socket (close_socket sock) = close_socket sock"
  by (simp add: close_socket_def)

lemma mute_peer_idem [simp]: "mute_peer (mute_peer p) = mute_peer p"
  by (simp add: mute_peer_def)

lemma mute_peers_idem [simp]: "mute_peers (mute_peers ps) = mute_peers ps"
  by (simp add: mute_peers_def)

lemma mute_idem [simp]: "mute (mute s) = mute s"
  by (simp add: mute_def)

lemma sendMessage_closed [simp]: "sendMessage (close_socket sock) f s = s"
  by (simp add: sendMessage_def)

lemma mute_sendMessage [simp]: "mute (sendMessage sock f s) = mute s"
  by (simp add: sendMessage_def)

lemma mute_notifyPeers [simp]: "mute (notifyPeers f is s) = mute s"
  by (simp add: notifyPeers_eq)

lemma map_get_mute_peers [simp]: "map_get (mute_peers ps) k = map_option mute_peer (map_get ps k)"
  by (induction ps) (auto simp: mute_peers_def map_get_def)

lemma map_has_mute_peers [simp]: "map_has (mute_peers ps) k = map_has ps k"
  by (simp add: map_has_def)

lemma recipients_mute_peers [simp]: "recipients (mute_peers ps) is = []"
  by (induction "is") (auto simp: recipients_Cons split: option.splits)

lemma notifyPeers_mute [simp]: "notifyPeers f is (mute s) = mute s"
  by (simp add: notifyPeers_eq mute_def)

lemma mute_peers_mutate_peer [simp]:
  "mutate_peer (mute_peer p) (mute_peers ps) = mute_peers (mutate_peer p ps)"
  by (induction ps) (auto simp: mutate_peer_def mute_peers_def)

lemma mute_peers_map_set [simp]:
  "map_set k (mute_peer p) (mute_peers ps) = mute_peers (map_set k p ps)"
  by (induction ps) (auto simp: mute_peers_def)

lemma mute_peers_map_delete [simp]:
  "map_delete k (mute_peers ps) = mute_peers (map_delete k ps)"
  by (induction ps) (auto simp: mute_peers_def map_delete_def)

lemma producerRefs_mute_peer [simp]: "producerRefs (mute_peer p) = producerRefs p"
  by (simp add: producerRefs_def)

lemma existingPeersInfo_mute_peers [simp]:
  "existingPeersInfo (mute_peers ps) is = existingPeersInfo ps is"
  by (induction "is") (auto split: option.splits)

lemma existingPeers_mute_peer [simp]: "existingPeers rm (mute_peer p) = existingPeers rm p"
  by (simp add: existingPeers_def)

lemma findProducerPeer_mute_peers [simp]:
  "findProducerPeer (mute_peers ps) i = map_option mute_peer (findProducerPeer ps i)"
  by (induction ps) (auto simp: findProducerPeer_def mute_peers_def)

lemma findRecvTransport_mute_peer [simp]: "findRecvTransport (mute_peer p) = findRecvTransport p"
  by (simp add: findRecvTransport_def)

lemma mute_join:
  "mute (outcome_state (addPeerToRoomAndNotifyOthers p pl s)) =
     mute (outcome_state (addPeerToRoomAndNotifyOthers (mute_peer p) pl (mute s)))"
  "thrown (addPeerToRoomAndNotifyOthers p pl s) =
     thrown (addPeerToRoomAndNotifyOthers (mute_peer p) pl (mute s))"
  by (simp_all add: addPeerToRoomAndNotifyOthers_def Let_def)

lemma mute_createTransport:
  "mute (outcome_state (createTransportAndSendParameters E p pl s)) =
     mute (outcome_state (createTransportAndSendParameters E (mute_peer p) pl (mute s)))"
  "thrown (createTransportAndSendParameters E p pl s) =
     thrown (createTransportAndSendParameters E (mute_peer p) pl (mute s))"
  by (simp_all add: createTransportAndSendParameters_def Let_def split: prod.splits sum.splits)

lemma mute_connect:
  "mute (outcome_state (finalizeTransportConnection E p pl s)) =
     mute (outcome_state (finalizeTransportConnection E (mute_peer p) pl (mute s)))"
  "thrown (finalizeTransportConnection E p pl s) =
     thrown (finalizeTransportConnection E (mute_peer p) pl (mute s))"
  by (simp_all add: finalizeTransportConnection_def Let_def
      split: prod.splits sum.splits option.splits)

lemma mute_produce:
  "mute (outcome_state (createProducerAndBroadcastToPeers E p pl s)) =
     mute (outcome_state (createProducerAndBroadcastToPeers E (mute_peer p) pl (mute s)))"
  "thrown (createProducerAndBroadcastToPeers E p pl s) =
     thrown (createProducerAndBroadcastToPeers E (mute_peer p) pl (mute s))"
  by (simp_all add: createProducerAndBroadcastToPeers_def Let_def
      split: prod.splits sum.splits option.splits)

lemma mute_consume:
  "mute (outcome_state (createConsumerForRemoteProducer E p pl s)) =
     mute (outcome_state (createConsumerForRemoteProducer E (mute_peer p) pl (mute s)))"
  "thrown (createConsumerForRemoteProducer E p pl s) =
     thrown (createConsumerForRemoteProducer E (mute_peer p) pl (mute s))"
  by (simp_all add: createConsumerForRemoteProducer_def Let_def
      split: prod.splits sum.splits option.splits)

lemma mute_resume:
  "mute (outcome_state (resumePausedConsumer E p pl s)) =
     mute (outcome_state (resumePausedConsumer E (mute_peer p) pl (mute s)))"
  "thrown (resumePausedConsumer E p pl s) =
     thrown (resumePausedConsumer E (mute_peer p) pl (mute s))"
  by (simp_all add: resumePausedConsumer_def Let_def
      split: prod.splits sum.splits option.splits)


lemma mute_route:
  "mute (outcome_state (routeIncomingMessage E peerId d s)) =
     mute (outcome_state (routeIncomingMessage E peerId d (mute s)))"
  "thrown (routeIncomingMessage E peerId d s) = thrown (routeIncomingMessage E peerId d (mute s))"
proof -
  show "mute (outcome_state (routeIncomingMessage E peerId d s)) =
          mute (outcome_state (routeIncomingMessage E peerId d (mute s)))"
  proof (cases "map_get (peers s) peerId")
    case None
    then show ?thesis
      by (simp add: routeIncomingMessage_def Let_def)
  next
    case (Some p)
    then show ?thesis
      using mute_join(1) [of p "d_payload d" s] mute_createTransport(1) [of E p "d_payload d" s]
        mute_connect(1) [of E p "d_payload d" s] mute_produce(1) [of E p "d_payload d" s]
        mute_consume(1) [of E p "d_payload d" s] mute_resume(1) [of E p "d_payload d" s]
      by (simp add: routeIncomingMessage_def Let_def sendRouterCapabilitiesToPeer_def)
  qed
  show "thrown (routeIncomingMessage E peerId d s) = thrown (routeIncomingMessage E peerId d (mute s))"
  proof (cases "map_get (peers s) peerId")
    case None
    then show ?thesis
      by (simp add: routeIncomingMessage_def Let_def)
  next
    case (Some p)
    then show ?thesis
      using mute_join(2) [of p "d_payload d" s] mute_createTransport(2) [of E p "d_payload d" s]
        mute_connect(2) [of E p "d_payload d" s] mute_produce(2) [of E p "d_payload d" s]
        mute_consume(2) [of E p "d_payload d" s] mute_resume(2) [of E p "d_payload d" s]
      by (simp add: routeIncomingMessage_def Let_def sendRouterCapabilitiesToPeer_def)
  qed
qed

lemma mute_catchError [simp]:
  "mute (catchError sock e s) =
     (mute s)\<lparr>console := console s @ [ConsoleError ''[WebSocket] Error handling message:'' (message e)]\<rparr>"
  by (simp add: catchError_def)

lemma outcome_cases:
  "(case r of Returned s' \<Rightarrow> f s' | Threw e s' \<Rightarrow> g e s') =
     (case thrown r of None \<Rightarrow> f (outcome_state r) | Some e \<Rightarrow> g e (outcome_state r))"
  by (cases r) simp_all

lemma mute_onMessage:
  "mute (onMessage E peerId sock raw s) = mute (onMessage E peerId (close_socket sock) raw (mute s))"
proof (cases raw)
  case (Malformed m)
  then show ?thesis
    by (simp add: onMessage_def)
next
  case (Parsed d)
  have c: "console (outcome_state (routeIncomingMessage E peerId d s)) =
           console (outcome_state (routeIncomingMessage E peerId d (mute s)))"
    using arg_cong [OF mute_route(1) [of E peerId d s], of console] by simp
  show ?thesis
    using mute_route [of E peerId d s] c
    by (simp add: Parsed onMessage_def outcome_cases split: option.splits)
qed

lemma new_peer_muted:
  "\<lparr>p_id = peerId, p_socket = close_socket sock, p_transports = [], p_producers = [],
    p_consumers = [], p_roomId = None\<rparr> =
   mute_peer \<lparr>p_id = peerId, p_socket = sock, p_transports = [], p_producers = [],
    p_consumers = [], p_roomId = None\<rparr>"
  by (simp add: mute_peer_def)

lemma mute_onConnection:
  "mute (onConnection peerId sock s) = mute (onConnection peerId (close_socket sock) (mute s))"
  by (simp add: onConnection_def new_peer_muted)

lemma notifyPeers_fields [simp]:
  "peers (notifyPeers f is s) = peers s"
  "rooms (notifyPeers f is s) = rooms s"
  "engine (notifyPeers f is s) = engine s"
  "console (notifyPeers f is s) = console s"
  by (simp_all add: notifyPeers_eq)

lemma mute_closeAllTransports [simp]:
  "closeAllTransports E (mute_peer p) (mute s) = mute (closeAllTransports E p s)"
  by (simp add: closeAllTransports_def)

lemma mute_removeFromRoom [simp]:
  "mute (removeFromRoom peerId (mute_peer p) (mute s)) = mute (removeFromRoom peerId p s)"
  by (simp add: removeFromRoom_def Let_def split: option.splits)

lemma mute_removePeer [simp]: "mute (removePeer peerId s) = removePeer peerId (mute s)"
  by (simp add: removePeer_def)

lemma mute_disconnect:
  "mute (handlePeerDisconnection E peerId s) = mute (handlePeerDisconnection E peerId (mute s))"
proof (cases "map_get (peers s) peerId")
  case None
  then show ?thesis
    by (simp add: handlePeerDisconnection_def)
next
  case (Some p)
  have "mute (removeFromRoom peerId (mute_peer p) (mute (closeAllTransports E p s))) =
        mute (removeFromRoom peerId p (closeAllTransports E p s))"
    by (rule mute_removeFromRoom)
  then show ?thesis
    using Some by (simp add: handlePeerDisconnection_def)
qed

lemma mute_step: "mute (step E ev s) = mute (step E (mute_event ev) (mute s))"
proof (cases ev)
  case (Connection peerId sock)
  then show ?thesis
    using mute_onConnection [of peerId sock s] by simp
next
  case (Message peerId sock raw)
  then show ?thesis
    using mute_onMessage [of E peerId sock raw s] by simp
next
  case (Close peerId)
  then show ?thesis
    using mute_disconnect [of E peerId s] by simp
qed


text \<open>
  Every frame a handler appends went to an open socket.
\<close>

lemma sent_openI:
  "outbound s' = outbound s @ fs \<Longrightarrow> list_all (\<lambda>e. readyState (fst e) = OPEN) fs \<Longrightarrow> sent_open s s'"
  by (simp add: sent_open_def sent_since_def)

lemma sent_openD:
  "sent_open s s' \<Longrightarrow> \<exists>fs. outbound s' = outbound s @ fs \<and> list_all (\<lambda>e. readyState (fst e) = OPEN) fs"
  by (metis append_take_drop_id sent_open_def sent_since_def)

lemma sent_open_same: "outbound s' = outbound s \<Longrightarrow> sent_open s s'"
  by (rule sent_openI [of _ _ "[]"]) simp_all

lemma sent_open_trans: "sent_open s s' \<Longrightarrow> sent_open s' s'' \<Longrightarrow> sent_open s s''"
proof -
  assume "sent_open s s'" and "sent_open s' s''"
  then obtain fs gs where
    "outbound s' = outbound s @ fs" "list_all (\<lambda>e. readyState (fst e) = OPEN) fs"
    "outbound s'' = outbound s' @ gs" "list_all (\<lambda>e. readyState (fst e) = OPEN) gs"
    by (blast dest: sent_openD)
  then show ?thesis
    by (intro sent_openI [of _ _ "fs @ gs"]) simp_all
qed

lemma sent_open_sendMessage: "sent_open s (sendMessage sock f s)"
  by (rule sent_openI [of _ _ "if readyState sock = OPEN then [(sock, f)] else []"])
    (simp_all add: outbound_sendMessage)

lemma recipients_open: "q \<in> set (recipients ps is) \<Longrightarrow> readyState (p_socket q) = OPEN"
  by (induction "is") (auto simp: recipients_Cons split: option.splits if_splits)

lemma sent_open_notifyPeers: "sent_open s (notifyPeers f is s)"
  by (rule sent_openI [of _ _ "map (\<lambda>q. (p_socket q, f)) (recipients (peers s) is)"])
    (auto simp: notifyPeers_eq list_all_iff recipients_open)

lemma sent_open_send_after:
  "outbound s1 = outbound s \<Longrightarrow> sent_open s (sendMessage sock f s1)"
  by (rule sent_open_trans [OF sent_open_same sent_open_sendMessage])

lemma sent_open_join: "sent_open s (outcome_state (addPeerToRoomAndNotifyOthers p pl s))"
  unfolding addPeerToRoomAndNotifyOthers_def Let_def outcome_state.simps
  by (rule sent_open_trans [OF sent_open_send_after sent_open_notifyPeers]) simp

lemma sent_open_createTransport:
  "sent_open s (outcome_state (createTransportAndSendParameters E p pl s))"
  by (auto simp: createTransportAndSendParameters_def Let_def sent_open_same
      intro!: sent_open_send_after split: prod.splits sum.splits)

lemma sent_open_connect:
  "sent_open s (outcome_state (finalizeTransportConnection E p pl s))"
  by (auto simp: finalizeTransportConnection_def Let_def sent_open_same
      intro!: sent_open_send_after split: prod.splits sum.splits option.splits)

lemma sent_open_produce:
  "sent_open s (outcome_state (createProducerAndBroadcastToPeers E p pl s))"
  by (auto simp: createProducerAndBroadcastToPeers_def Let_def sent_open_same
      intro!: sent_open_send_after
        sent_open_trans [OF sent_open_send_after sent_open_notifyPeers]
      split: prod.splits sum.splits option.splits)

lemma sent_open_consume:
  "sent_open s (outcome_state (createConsumerForRemoteProducer E p pl s))"
  by (auto simp: createConsumerForRemoteProducer_def Let_def sent_open_same
      intro!: sent_open_send_after split: prod.splits sum.splits option.splits)

lemma sent_open_resume:
  "sent_open s (outcome_state (resumePausedConsumer E p pl s))"
  by (auto simp: resumePausedConsumer_def Let_def sent_open_same
      intro!: sent_open_send_after split: prod.splits sum.splits option.splits)

lemma sent_open_route: "sent_open s (outcome_state (routeIncomingMessage E peerId d s))"
  by (auto simp: routeIncomingMessage_def Let_def sendRouterCapabilitiesToPeer_def
      sent_open_join sent_open_createTransport sent_open_connect sent_open_produce
      sent_open_consume sent_open_resume sent_open_same
      intro!: sent_open_sendMessage split: option.splits)

lemma sent_open_catchError: "sent_open s (catchError sock e s)"
  unfolding catchError_def by (rule sent_open_send_after) simp

lemma sent_open_onMessage: "sent_open s (onMessage E peerId sock raw s)"
proof (cases raw)
  case (Malformed m)
  then show ?thesis
    by (simp add: onMessage_def sent_open_catchError)
next
  case (Parsed d)
  show ?thesis
  proof (cases "routeIncomingMessage E peerId d s")
    case (Returned s')
    with sent_open_route [of s E peerId d] show ?thesis
      by (simp add: Parsed onMessage_def)
  next
    case (Threw e s')
    with sent_open_route [of s E peerId d] have "sent_open s s'"
      by simp
    then show ?thesis
      using Threw by (simp add: Parsed onMessage_def sent_open_trans [OF _ sent_open_catchError])
  qed
qed

lemma sent_open_onConnection: "sent_open s (onConnection peerId sock s)"
  unfolding onConnection_def by (rule sent_open_send_after) simp

lemma sent_open_removeFromRoom: "sent_open s (removeFromRoom peerId p s)"
proof -
  have a: "sent_open s (notifyPeers f is (s\<lparr>rooms := r\<rparr>))" for f "is" r
    by (rule sent_open_trans [OF sent_open_same sent_open_notifyPeers]) simp
  have b: "sent_open s ((notifyPeers f is (s\<lparr>rooms := r\<rparr>))\<lparr>rooms := r'\<rparr>)" for f "is" r r'
    by (rule sent_open_trans [OF a sent_open_same]) simp
  show ?thesis
    by (simp add: removeFromRoom_def Let_def a b sent_open_same split: option.splits)
qed

lemma sent_open_disconnect: "sent_open s (handlePeerDisconnection E peerId s)"
proof (cases "map_get (peers s) peerId")
  case None
  then show ?thesis
    by (simp add: handlePeerDisconnection_def sent_open_same)
next
  case (Some p)
  have "sent_open s (closeAllTransports E p s)"
    by (rule sent_open_same) simp
  from sent_open_trans [OF this sent_open_removeFromRoom]
  have "sent_open s (removeFromRoom peerId p (closeAllTransports E p s))" .
  from sent_open_trans [OF this sent_open_same]
  show ?thesis
    using Some by (simp add: handlePeerDisconnection_def removePeer_def)
qed

lemma sent_open_step: "sent_open s (step E ev s)"
  by (cases ev) (simp_all add: sent_open_onConnection sent_open_onMessage sent_open_disconnect)

text \<open>
  Claim C10. \<open>sendMessage\<close> appends the frame when the socket's \<open>readyState\<close> is \<open>OPEN\<close> and
  otherwise returns the state as it is; it never throws. Every event of the server (connection,
  message, close) only appends to the frames sent, and every frame it appends went to a socket
  whose \<open>readyState\<close> was \<open>OPEN\<close>. Whether frames can be delivered has no other effect: a
  request throws in a state exactly if it throws in the same state with all sockets closed, and
  after any event the peers (up to the readiness of their sockets), the rooms, the engine and
  the console are the same as when the event is handled with every socket closed.
\<close>

theorem frames_only_to_open_sockets:
  "sendMessage sock f s =
     (if readyState sock = OPEN then s\<lparr>outbound := outbound s @ [(sock, f)]\<rparr> else s) \<and>
   (\<exists>fs. outbound (step E ev s) = outbound s @ fs \<and> (\<forall>e\<in>set fs. readyState (fst e) = OPEN)) \<and>
   thrown (routeIncomingMessage E peerId d s) = thrown (routeIncomingMessage E peerId d (mute s)) \<and>
   mute (step E ev s) = mute (step E (mute_event ev) (mute s))"
proof -
  have 1: "sendMessage sock f s =
     (if readyState sock = OPEN then s\<lparr>outbound := outbound s @ [(sock, f)]\<rparr> else s)"
    by (simp add: sendMessage_def)
  have 2: "\<exists>fs. outbound (step E ev s) = outbound s @ fs \<and> (\<forall>e\<in>set fs. readyState (fst e) = OPEN)"
    using sent_openD [OF sent_open_step [of s E ev]] by (simp add: list_all_iff)
  from 1 2 mute_route(2) [of E peerId d s] mute_step [of E ev s] show ?thesis
    by blast
qed


text \<open>
  Claim C10 when A disconnects: nothing goes to the closing socket of C, one frame to D, and the
  registries end up as in the run with all sockets closed.
\<close>

theorem frames_only_to_open_sockets_witness:
  "readyState sockC \<noteq> OPEN \<and>
   sendMessage sockC (PeerLeft ''A'') demoServer = demoServer \<and>
   outbound (step demoEngine (Close ''A'') demoServer) = [(sockD, PeerLeft ''A'')] \<and>
   readyState sockD = OPEN \<and>
   mute (step demoEngine (Close ''A'') demoServer) =
     mute (step demoEngine (Close ''A'') (mute demoServer))"
proof -
  note t = frames_only_to_open_sockets
    [where sock = sockC and f = "PeerLeft ''A''" and s = demoServer and E = demoEngine
       and ev = "Close ''A''" and peerId = "''A''"
       and d = "\<lparr>d_type = ''ping'', d_payload = empty_payload\<rparr>"]
  have c: "readyState sockC \<noteq> OPEN" "readyState sockD = OPEN"
    by (simp_all add: sockC_def sockD_def OPEN_def)
  from t c(1) have 1: "sendMessage sockC (PeerLeft ''A'') demoServer = demoServer"
    by simp
  from t have 2: "mute (step demoEngine (Close ''A'') demoServer) =
     mute (step demoEngine (Close ''A'') (mute demoServer))"
    by simp
  have 3: "outbound (step demoEngine (Close ''A'') demoServer) = [(sockD, PeerLeft ''A'')]"
    by code_simp
  from c 1 2 3 show ?thesis
    by blast
qed

end
